theory Spec2Isabelle
  imports Complex_Main "HOL-Library.AList"
begin

section \<open>Python values, floats and exceptions\<close>

text \<open>
  The module \<^verbatim>\<open>experiments/baselines.py\<close> runs under Python 2 and Python 3 (it
  starts with the \<^verbatim>\<open>__future__\<close> imports of \<^verbatim>\<open>print_function\<close>,
  \<^verbatim>\<open>division\<close> and \<^verbatim>\<open>absolute_import\<close>); the model follows Python 3.
  Console output is not part of the model. The flag \<^verbatim>\<open>verbose\<close> selects what is
  printed; it changes what a method does only in the exception handlers of
  \<^verbatim>\<open>PCA\<close>, \<^verbatim>\<open>SparsePCA\<close>, \<^verbatim>\<open>FactorAnalysis\<close> and \<^verbatim>\<open>GraphLasso\<close>,
  which read \<^verbatim>\<open>e.message\<close> to print it, so the models of these four methods
  take the flag and the others do not.

  A Python float is \<open>NaN\<close>, an infinity or a finite number; the finite ones are
  modelled by the reals they denote. Comparison with \<open>NaN\<close> is always false.
\<close>

datatype pyfloat = NaN | NegInf | Fin real | PosInf

fun flt :: "pyfloat \<Rightarrow> pyfloat \<Rightarrow> bool" where
  "flt NaN _ = False"
| "flt _ NaN = False"
| "flt PosInf _ = False"
| "flt _ NegInf = False"
| "flt NegInf _ = True"
| "flt (Fin a) (Fin b) = (a < b)"
| "flt (Fin a) PosInf = True"

definition isnan :: "pyfloat \<Rightarrow> bool" where
  "isnan x = (x = NaN)"

datatype pyval =
    PNone
  | PBool bool
  | PInt int
  | PFloat pyfloat
  | PStr string
  | PList "pyval list"
  | PDict "(string \<times> pyval) list"

text \<open>
  A dict is the list of its items in iteration order, with distinct keys;
  \<^verbatim>\<open>d[k] = v\<close> is \<^const>\<open>AList.update\<close>: it replaces the value of a key
  that is there and adds a new key otherwise (at the end of the list; where the
  interpreter puts a new key in the iteration order plays no role in what follows,
  which reads dicts through \<^const>\<open>map_of\<close>).
\<close>

type_synonym dict = "(string \<times> pyval) list"

datatype exn =
    TypeError
  | KeyError string
  | ValueError
  | IndexError
  | AttributeError
  | AssertionError
  | OSError
  | NotImplementedError
  | LibraryError string "string option"
  | KeyboardInterrupt

text \<open>\<^verbatim>\<open>except Exception\<close> catches every exception but the ones that derive
  from \<^verbatim>\<open>BaseException\<close> only.\<close>

fun is_Exception :: "exn \<Rightarrow> bool" where
  "is_Exception KeyboardInterrupt = False"
| "is_Exception _ = True"

text \<open>\<^verbatim>\<open>e.message\<close>: an exception object has this attribute only when its class
  defines it, and the built-in exceptions of Python 3 do not. An exception of a
  library is given by the name of its class and by its attribute \<^verbatim>\<open>message\<close>, if it
  has one. Reading an attribute that is not there raises \<^verbatim>\<open>AttributeError\<close>.\<close>

fun message_of :: "exn \<Rightarrow> string option" where
  "message_of (LibraryError name msg) = msg"
| "message_of _ = None"

text \<open>\<^verbatim>\<open>for x in v\<close>: what iterating over a value yields.\<close>

definition iter_py :: "pyval \<Rightarrow> exn + pyval list" where
  "iter_py v =
     (case v of
        PList xs \<Rightarrow> Inr xs
      | PStr s \<Rightarrow> Inr (map (\<lambda>c. PStr [c]) s)
      | PDict d \<Rightarrow> Inr (map (\<lambda>kv. PStr (fst kv)) d)
      | _ \<Rightarrow> Inl TypeError)"

text \<open>\<^verbatim>\<open>dict(pairs)\<close>: later pairs overwrite earlier ones with the same key.\<close>

definition dict_of :: "(string \<times> pyval) list \<Rightarrow> dict" where
  "dict_of pairs = foldl (\<lambda>d kv. AList.update (fst kv) (snd kv) d) [] pairs"

text \<open>\<^verbatim>\<open>for k, v in src.items(): d[k] = v\<close>\<close>

definition assign_all :: "dict \<Rightarrow> dict \<Rightarrow> dict" where
  "assign_all d src = foldl (\<lambda>d kv. AList.update (fst kv) (snd kv) d) d src"


section \<open>The hyperparameter grid of \<^verbatim>\<open>Baseline.select\<close>\<close>

text \<open>The inner loop over a dict-valued entry: every pair (inner key, candidate) is
  appended to the one array \<^verbatim>\<open>arr\<close>.\<close>

fun expand_dict :: "dict \<Rightarrow> (string \<times> pyval) list \<Rightarrow> exn + (string \<times> pyval) list" where
  "expand_dict [] arr = Inr arr"
| "expand_dict ((param_k, param_v) # rest) arr =
     (case iter_py param_v of
        Inl e \<Rightarrow> Inl e
      | Inr xs \<Rightarrow> expand_dict rest (arr @ map (Pair param_k) xs))"

text \<open>The loop over \<^verbatim>\<open>params.items()\<close> (lines 41 to 52).\<close>

fun partition_params ::
  "dict \<Rightarrow> (string \<times> pyval) list list \<Rightarrow> dict
    \<Rightarrow> exn + ((string \<times> pyval) list list \<times> dict)" where
  "partition_params [] search_params const_params = Inr (search_params, const_params)"
| "partition_params ((k, v) # rest) search_params const_params =
     (case v of
        PList xs \<Rightarrow>
          partition_params rest (search_params @ [map (Pair k) xs]) const_params
      | PDict d \<Rightarrow>
          (case expand_dict d [] of
             Inl e \<Rightarrow> Inl e
           | Inr arr \<Rightarrow> partition_params rest (search_params @ [arr]) const_params)
      | _ \<Rightarrow> partition_params rest search_params (AList.update k v const_params))"

text \<open>Lines 54 to 56: the dummy axis of an empty grid.\<close>

definition add_dummy :: "(string \<times> pyval) list list \<Rightarrow> (string \<times> pyval) list list" where
  "add_dummy search_params =
     (if length search_params = 0 then [[(''__dummy__'', PNone)]] else search_params)"

text \<open>\<^verbatim>\<open>itertools.product\<close> of the axes: the last axis advances fastest.\<close>

fun itertools_product :: "'a list list \<Rightarrow> 'a list list" where
  "itertools_product [] = [[]]"
| "itertools_product (axis # axes) =
     concat (map (\<lambda>x. map ((#) x) (itertools_product axes)) axis)"

definition grid_of :: "dict \<Rightarrow> exn + ((string \<times> pyval) list list \<times> dict)" where
  "grid_of params =
     (case partition_params params [] [] of
        Inl e \<Rightarrow> Inl e
      | Inr (search_params, const_params) \<Rightarrow>
          Inr (itertools_product (add_dummy search_params), const_params))"


section \<open>\<^verbatim>\<open>Baseline.select\<close>\<close>

text \<open>
  Dicts are objects: the heap is the list of the dicts allocated so far and a
  reference is an index into it. A data set is the list of its segments (type \<open>'x\<close>),
  a covariance set a list of matrices (type \<open>'c\<close>), a fitted model has type \<open>'m\<close>;
  \<open>None\<close> of an option type is Python's \<^verbatim>\<open>None\<close>.

  \<^verbatim>\<open>self._train\<close> is the parameter \<open>train\<close>: it gets the state \<open>'w\<close> of
  whatever lies outside the interpreter (the file system of the solver-backed
  variants), the training data and the dict it is passed, and returns the state and
  the dict as it leaves them, with the pair \<^verbatim>\<open>(covs, method)\<close> or the exception it
  raises; the flag \<^verbatim>\<open>verbose\<close> that \<^verbatim>\<open>select\<close> hands on is part of
  \<open>train\<close>. \<^verbatim>\<open>utils.calculate_nll_score\<close> is not part of the module: it is the
  parameter \<open>score\<close>, with the contract the specification gives it: it returns a
  float for a data set and covariances, \<open>NaN\<close> for a candidate it cannot score.
  The field \<open>calls\<close> is a log of the dicts \<open>train\<close> was called with.
\<close>

type_synonym ('w, 'x, 'c, 'm) trainfn =
  "'w \<Rightarrow> 'x list \<Rightarrow> dict \<Rightarrow> 'w \<times> dict \<times> (exn + ('c list option \<times> 'm option))"

type_synonym ('x, 'c) scorefn = "'x list \<Rightarrow> 'c list option \<Rightarrow> pyfloat"

record ('w, 'c, 'm) search =
  world :: 'w
  heap :: "dict list"
  best_score :: pyfloat
  best_params :: "nat option"
  best_covs :: "'c list option"
  best_method :: "'m option"
  calls :: "dict list"

text \<open>One iteration of the loop of lines 60 to 82: \<^verbatim>\<open>dict(cur_params)\<close> is a new
  object, the constants are assigned into it, and \<^verbatim>\<open>_train\<close> is called with it.\<close>

definition select_body ::
  "('w, 'x, 'c, 'm) trainfn \<Rightarrow> ('x, 'c) scorefn \<Rightarrow> 'x list \<Rightarrow> 'x list \<Rightarrow> dict
    \<Rightarrow> (string \<times> pyval) list
    \<Rightarrow> ('w, 'c, 'm) search \<Rightarrow> ('w, 'c, 'm) search \<times> exn option" where
  "select_body train score train_data val_data const_params cur st =
     (let cur_params = length (heap st);
          h1 = heap st @ [dict_of cur];
          h2 = h1[cur_params := assign_all (h1 ! cur_params) const_params];
          arg = h2 ! cur_params
      in case train (world st) train_data arg of
           (w, d, Inl e) \<Rightarrow>
             (st\<lparr>world := w, heap := h2[cur_params := d], calls := calls st @ [arg]\<rparr>,
              Some e)
         | (w, d, Inr (cur_covs, cur_method)) \<Rightarrow>
             (let st1 = st\<lparr>world := w, heap := h2[cur_params := d],
                            calls := calls st @ [arg]\<rparr>;
                  cur_score = score val_data cur_covs
              in if best_params st1 = None \<or>
                    (\<not> isnan cur_score \<and> flt cur_score (best_score st1))
                 then (st1\<lparr>best_score := cur_score, best_params := Some cur_params,
                            best_covs := cur_covs, best_method := cur_method\<rparr>, None)
                 else (st1, None)))"

fun select_loop ::
  "('w, 'x, 'c, 'm) trainfn \<Rightarrow> ('x, 'c) scorefn \<Rightarrow> 'x list \<Rightarrow> 'x list \<Rightarrow> dict
    \<Rightarrow> (string \<times> pyval) list list
    \<Rightarrow> ('w, 'c, 'm) search \<Rightarrow> ('w, 'c, 'm) search \<times> exn option" where
  "select_loop train score train_data val_data const_params [] st = (st, None)"
| "select_loop train score train_data val_data const_params (cur # rest) st =
     (case select_body train score train_data val_data const_params cur st of
        (st', Some e) \<Rightarrow> (st', Some e)
      | (st', None) \<Rightarrow> select_loop train score train_data val_data const_params rest st')"

text \<open>The fields of a \<^verbatim>\<open>Baseline\<close> object; \<open>self_params\<close> is a reference.\<close>

record ('c, 'm) baseline =
  self_name :: string
  self_trained :: bool
  self_val_score :: "pyfloat option"
  self_params :: "nat option"
  self_covs :: "'c list option"
  self_method :: "'m option"

definition Baseline_init :: "string \<Rightarrow> ('c, 'm) baseline" where
  "Baseline_init name =
     \<lparr>self_name = name, self_trained = False, self_val_score = None,
      self_params = None, self_covs = None, self_method = None\<rparr>"

definition init_search :: "'w \<Rightarrow> dict list \<Rightarrow> ('w, 'c, 'm) search" where
  "init_search w h =
     \<lparr>world = w, heap = h, best_score = Fin (10 ^ 18), best_params = None,
      best_covs = None, best_method = None, calls = []\<rparr>"

text \<open>
  \<^verbatim>\<open>select\<close>, called on \<open>self\<close> with the reference \<open>p\<close> of the caller's dict.
  It returns the object, the final search state (heap, world and log) and the
  result: the tuple of line 92, or the exception that ended the call.
\<close>

definition select ::
  "('w, 'x, 'c, 'm) trainfn \<Rightarrow> ('x, 'c) scorefn \<Rightarrow> ('c, 'm, 'z) baseline_scheme \<Rightarrow> 'w
    \<Rightarrow> dict list \<Rightarrow> 'x list \<Rightarrow> 'x list \<Rightarrow> nat
    \<Rightarrow> ('c, 'm, 'z) baseline_scheme \<times> ('w, 'c, 'm) search
        \<times> (exn + (pyfloat \<times> nat option \<times> 'c list option \<times> 'm option))" where
  "select train score self w h train_data val_data p =
     (case grid_of (h ! p) of
        Inl e \<Rightarrow> (self, init_search w h, Inl e)
      | Inr (grid, const_params) \<Rightarrow>
          (case select_loop train score train_data val_data const_params grid
                  (init_search w h) of
             (st, Some e) \<Rightarrow> (self, st, Inl e)
           | (st, None) \<Rightarrow>
               (self\<lparr>self_trained := True, self_val_score := Some (best_score st),
                      self_params := best_params st, self_covs := best_covs st,
                      self_method := best_method st\<rparr>,
                st,
                Inr (best_score st, best_params st, best_covs st, best_method st))))"

text \<open>The best score retained after each of the iterations of the loop.\<close>

definition retained ::
  "('w, 'x, 'c, 'm) trainfn \<Rightarrow> ('x, 'c) scorefn \<Rightarrow> 'x list \<Rightarrow> 'x list \<Rightarrow> dict
    \<Rightarrow> (string \<times> pyval) list list \<Rightarrow> ('w, 'c, 'm) search \<Rightarrow> pyfloat list" where
  "retained train score train_data val_data const_params grid st =
     map (\<lambda>n. best_score (fst (select_loop train score train_data val_data const_params
                                  (take n grid) st)))
       [1 ..< Suc (length grid)]"


section \<open>\<^verbatim>\<open>evaluate\<close>, \<^verbatim>\<open>get_covariance\<close>, \<^verbatim>\<open>timeit\<close>\<close>

definition evaluate ::
  "('x, 'c) scorefn \<Rightarrow> ('c, 'm, 'z) baseline_scheme \<Rightarrow> 'x list \<Rightarrow> exn + pyfloat" where
  "evaluate score self test_data =
     (if \<not> self_trained self then Inl AssertionError
      else Inr (score test_data (self_covs self)))"

definition get_covariance :: "('c, 'm, 'z) baseline_scheme \<Rightarrow> exn + 'c list option" where
  "get_covariance self =
     (if \<not> self_trained self then Inl AssertionError else Inr (self_covs self))"

text \<open>\<^verbatim>\<open>Baseline.timeit\<close> passes the caller's dict itself (the reference \<open>p\<close>) to
  \<^verbatim>\<open>_train\<close>. The elapsed time it returns is read from the clock and is not
  modelled: the result is the exception of \<^verbatim>\<open>_train\<close>, if any.\<close>

definition timeit ::
  "('w, 'x, 'c, 'm) trainfn \<Rightarrow> 'w \<Rightarrow> dict list \<Rightarrow> 'x list \<Rightarrow> nat
    \<Rightarrow> 'w \<times> dict list \<times> exn option" where
  "timeit train w h train_data p =
     (case train w train_data (h ! p) of
        (w', d, Inl e) \<Rightarrow> (w', h[p := d], Some e)
      | (w', d, Inr dummy) \<Rightarrow> (w', h[p := d], None))"

text \<open>\<^verbatim>\<open>Baseline._train\<close>\<close>

definition Baseline_train :: "('w, 'x, 'c, 'm) trainfn" where
  "Baseline_train w train_data params = (w, params, Inl NotImplementedError)"


section \<open>\<^verbatim>\<open>GroundTruth\<close>\<close>

record ('c, 'm) ground_truth = "('c, 'm) baseline" +
  self_score :: pyfloat

definition GroundTruth_init ::
  "('x, 'c) scorefn \<Rightarrow> 'c list option \<Rightarrow> 'x list \<Rightarrow> string \<Rightarrow> ('c, 'm) ground_truth" where
  "GroundTruth_init score covs test_data name =
     baseline.extend (Baseline_init name) (ground_truth.fields (score test_data covs))
       \<lparr>self_covs := covs, self_trained := True\<rparr>"

definition GroundTruth_train :: "('c, 'm, 'z) baseline_scheme \<Rightarrow> ('w, 'x, 'c, 'm) trainfn" where
  "GroundTruth_train self w train_data params = (w, params, Inr (self_covs self, None))"


section \<open>The in-process estimators\<close>

text \<open>\<^verbatim>\<open>params[k]\<close>, and the keyword arguments of a constructor call, looked up
  from left to right.\<close>

definition getitem :: "dict \<Rightarrow> string \<Rightarrow> exn + pyval" where
  "getitem d k = (case map_of d k of None \<Rightarrow> Inl (KeyError k) | Some v \<Rightarrow> Inr v)"

fun getitems :: "dict \<Rightarrow> string list \<Rightarrow> exn + pyval list" where
  "getitems d [] = Inr []"
| "getitems d (k # ks) =
     (case getitem d k of
        Inl e \<Rightarrow> Inl e
      | Inr v \<Rightarrow> (case getitems d ks of Inl e \<Rightarrow> Inl e | Inr vs \<Rightarrow> Inr (v # vs)))"

text \<open>
  The estimators of scikit-learn, linearcorex, TVGL and T-CorEx and the numpy
  routines are not part of the module: they are parameters. An estimator \<open>est\<close>
  stands for the construction of the estimator object with the given arguments, its
  \<^verbatim>\<open>fit\<close> on a segment and the computation of the covariance from it; any of these
  may raise.
\<close>

definition with_args ::
  "dict \<Rightarrow> string list \<Rightarrow> (pyval list \<Rightarrow> 'x \<Rightarrow> exn + 'c) \<Rightarrow> 'x \<Rightarrow> exn + 'c" where
  "with_args params keys est x =
     (case getitems params keys of Inl e \<Rightarrow> Inl e | Inr args \<Rightarrow> est args x)"

text \<open>The loop \<^verbatim>\<open>for x in train_data: ... covs.append(...)\<close>.\<close>

fun fit_each :: "('x \<Rightarrow> exn + 'c) \<Rightarrow> 'x list \<Rightarrow> 'c list \<Rightarrow> exn + 'c list" where
  "fit_each est [] covs = Inr covs"
| "fit_each est (x # rest) covs =
     (case est x of Inl e \<Rightarrow> Inl e | Inr c \<Rightarrow> fit_each est rest (covs @ [c]))"

text \<open>\<^verbatim>\<open>try: ... except Exception as e: covs = None\<close>, with the handler's
  \<^verbatim>\<open>if verbose: print(... e.message)\<close>: an exception raised in the handler leaves
  the method.\<close>

definition except_Exception :: "bool \<Rightarrow> exn + 'c list \<Rightarrow> exn + 'c list option" where
  "except_Exception verbose r =
     (case r of
        Inr covs \<Rightarrow> Inr (Some covs)
      | Inl e \<Rightarrow>
          if is_Exception e then
            (if verbose then
               (case message_of e of None \<Rightarrow> Inl AttributeError | Some msg \<Rightarrow> Inr None)
             else Inr None)
          else Inl e)"

definition returning ::
  "'w \<Rightarrow> dict \<Rightarrow> exn + 'c list option \<Rightarrow> 'm option
    \<Rightarrow> 'w \<times> dict \<times> (exn + ('c list option \<times> 'm option))" where
  "returning w params r m =
     (case r of Inl e \<Rightarrow> (w, params, Inl e) | Inr covs \<Rightarrow> (w, params, Inr (covs, m)))"

definition Diagonal_train ::
  "(pyval \<Rightarrow> 'x \<Rightarrow> exn + 'c) \<Rightarrow> pyval \<Rightarrow> ('w, 'x, 'c, 'm) trainfn" where
  "Diagonal_train diag_var min_var w train_data params =
     returning w params (map_sum id Some (fit_each (diag_var min_var) train_data [])) None"

definition LedoitWolf_train :: "('x \<Rightarrow> exn + 'c) \<Rightarrow> ('w, 'x, 'c, 'm) trainfn" where
  "LedoitWolf_train sk_LedoitWolf w train_data params =
     returning w params (map_sum id Some (fit_each sk_LedoitWolf train_data [])) None"

definition OAS_train :: "('x \<Rightarrow> exn + 'c) \<Rightarrow> ('w, 'x, 'c, 'm) trainfn" where
  "OAS_train sk_OAS w train_data params =
     returning w params (map_sum id Some (fit_each sk_OAS train_data [])) None"

definition PCA_train ::
  "(pyval list \<Rightarrow> 'x \<Rightarrow> exn + 'c) \<Rightarrow> bool \<Rightarrow> ('w, 'x, 'c, 'm) trainfn" where
  "PCA_train sk_PCA verbose w train_data params =
     returning w params
       (except_Exception verbose
          (fit_each (with_args params [''n_components''] sk_PCA) train_data []))
       None"

definition SparsePCA_train ::
  "(pyval list \<Rightarrow> 'x \<Rightarrow> exn + 'c) \<Rightarrow> bool \<Rightarrow> ('w, 'x, 'c, 'm) trainfn" where
  "SparsePCA_train sk_SparsePCA verbose w train_data params =
     returning w params
       (except_Exception verbose
          (fit_each
             (with_args params
                [''n_components'', ''alpha'', ''ridge_alpha'', ''max_iter'', ''tol'']
                sk_SparsePCA)
             train_data []))
       None"

definition FactorAnalysis_train ::
  "(pyval list \<Rightarrow> 'x \<Rightarrow> exn + 'c) \<Rightarrow> bool \<Rightarrow> ('w, 'x, 'c, 'm) trainfn" where
  "FactorAnalysis_train sk_FactorAnalysis verbose w train_data params =
     returning w params
       (except_Exception verbose
          (fit_each (with_args params [''n_components''] sk_FactorAnalysis) train_data []))
       None"

definition GraphLasso_train ::
  "(pyval list \<Rightarrow> 'x \<Rightarrow> exn + 'c) \<Rightarrow> bool \<Rightarrow> ('w, 'x, 'c, 'm) trainfn" where
  "GraphLasso_train sk_GraphLasso verbose w train_data params =
     returning w params
       (except_Exception verbose
          (fit_each (with_args params [''alpha'', ''max_iter''] sk_GraphLasso)
             train_data []))
       None"

definition LinearCorex_train ::
  "(pyval list \<Rightarrow> 'x \<Rightarrow> exn + 'c) \<Rightarrow> ('w, 'x, 'c, 'm) trainfn" where
  "LinearCorex_train corex w train_data params =
     returning w params
       (map_sum id Some
          (fit_each (with_args params [''n_hidden'', ''max_iter'', ''anneal''] corex)
             train_data []))
       None"

text \<open>\<open>concatenate\<close> is \<^verbatim>\<open>np.concatenate(train_data, axis=0)\<close>, \<open>corex_fit\<close> the
  construction and fit of the model, \<open>get_cov\<close> its \<^verbatim>\<open>get_covariance\<close>, called once
  per segment.\<close>

definition LinearCorexWholeData_train ::
  "('x list \<Rightarrow> exn + 'x) \<Rightarrow> (pyval list \<Rightarrow> 'x \<Rightarrow> exn + 'm) \<Rightarrow> ('m \<Rightarrow> exn + 'c)
    \<Rightarrow> ('w, 'x, 'c, 'm) trainfn" where
  "LinearCorexWholeData_train concatenate corex_fit get_cov w train_data params =
     (case concatenate train_data of
        Inl e \<Rightarrow> (w, params, Inl e)
      | Inr X \<Rightarrow>
          (case with_args params [''n_hidden'', ''max_iter'', ''anneal''] corex_fit X of
             Inl e \<Rightarrow> (w, params, Inl e)
           | Inr c \<Rightarrow>
               returning w params
                 (map_sum id Some (fit_each (\<lambda>t. get_cov c) train_data [])) (Some c)))"

text \<open>\<open>stack\<close> builds the time series of all rows, \<open>tvgl\<close> is \<^verbatim>\<open>TVGL.TVGL\<close> on the
  series with the slice length \<^verbatim>\<open>len(train_data[0])\<close> (it gets the first segment)
  and the four parameters, \<open>np_inv\<close> is \<^verbatim>\<open>np.linalg.inv\<close>.\<close>

definition TVGL_solve ::
  "('x list \<Rightarrow> exn + 'x) \<Rightarrow> ('x \<Rightarrow> 'x \<Rightarrow> pyval list \<Rightarrow> exn + 'c list) \<Rightarrow> 'x list \<Rightarrow> dict
    \<Rightarrow> exn + 'c list" where
  "TVGL_solve stack tvgl train_data params =
     (case stack train_data of
        Inl e \<Rightarrow> Inl e
      | Inr train_data_ts \<Rightarrow>
          (case train_data of
             [] \<Rightarrow> Inl IndexError
           | x0 # rest \<Rightarrow>
               (case getitems params [''lamb'', ''beta'', ''indexOfPenalty'', ''max_iter''] of
                  Inl e \<Rightarrow> Inl e
                | Inr args \<Rightarrow> tvgl train_data_ts x0 args)))"

definition TimeVaryingGraphLasso_train ::
  "('x list \<Rightarrow> exn + 'x) \<Rightarrow> ('x \<Rightarrow> 'x \<Rightarrow> pyval list \<Rightarrow> exn + 'c list) \<Rightarrow> ('c \<Rightarrow> exn + 'c)
    \<Rightarrow> ('w, 'x, 'c, 'm) trainfn" where
  "TimeVaryingGraphLasso_train stack tvgl np_inv w train_data params =
     (case TVGL_solve stack tvgl train_data params of
        Inl e \<Rightarrow> (w, params, Inl e)
      | Inr inv_covs \<Rightarrow>
          returning w params (map_sum id Some (fit_each np_inv inv_covs [])) None)"

definition TimeVaryingGraphLasso_timeit ::
  "('x list \<Rightarrow> exn + 'x) \<Rightarrow> ('x \<Rightarrow> 'x \<Rightarrow> pyval list \<Rightarrow> exn + 'c list)
    \<Rightarrow> 'w \<Rightarrow> dict list \<Rightarrow> 'x list \<Rightarrow> nat \<Rightarrow> 'w \<times> dict list \<times> exn option" where
  "TimeVaryingGraphLasso_timeit stack tvgl w h train_data p =
     (case TVGL_solve stack tvgl train_data (h ! p) of
        Inl e \<Rightarrow> (w, h, Some e)
      | Inr inv_covs \<Rightarrow> (w, h, None))"


section \<open>\<^verbatim>\<open>TCorex\<close>\<close>

text \<open>\<open>tcorex\<close> is the call of \<^verbatim>\<open>self.tcorex\<close> with the dict and the fit of the
  model, \<open>get_cov\<close> its \<^verbatim>\<open>get_covariance\<close>. Line 385 assigns into the dict that was
  passed.\<close>

definition TCorex_train ::
  "(dict \<Rightarrow> 'x list \<Rightarrow> exn + 'm) \<Rightarrow> ('m \<Rightarrow> exn + 'c list option)
    \<Rightarrow> ('w, 'x, 'c, 'm) trainfn" where
  "TCorex_train tcorex get_cov w train_data params =
     (let params1 = AList.update ''nt'' (PInt (int (length train_data))) params
      in case tcorex params1 train_data of
           Inl e \<Rightarrow> (w, params1, Inl e)
         | Inr c \<Rightarrow> returning w params1 (get_cov c) (Some c))"

definition TCorex_timeit ::
  "(dict \<Rightarrow> 'x list \<Rightarrow> exn + 'm)
    \<Rightarrow> 'w \<Rightarrow> dict list \<Rightarrow> 'x list \<Rightarrow> nat \<Rightarrow> 'w \<times> dict list \<times> exn option" where
  "TCorex_timeit tcorex w h train_data p =
     (let h1 = h[p := AList.update ''nt'' (PInt (int (length train_data))) (h ! p)]
      in case tcorex (h1 ! p) train_data of
           Inl e \<Rightarrow> (w, h1, Some e)
         | Inr c \<Rightarrow> (w, h1, None))"


section \<open>Strings\<close>

definition nl :: string where
  "nl = [CHR 0x0A]"

definition quoted :: "string \<Rightarrow> string" where
  "quoted s = [CHR 0x27] @ s @ [CHR 0x27]"

definition is_digit :: "char \<Rightarrow> bool" where
  "is_digit c = (c \<in> set ''0123456789'')"

text \<open>\<^verbatim>\<open>'{}'.format(n)\<close> for a natural number.\<close>

fun str_nat :: "nat \<Rightarrow> string" where
  "str_nat n =
     (if n < 10 then [''0123456789'' ! n]
      else str_nat (n div 10) @ [''0123456789'' ! (n mod 10)])"

declare str_nat.simps [simp del]

text \<open>\<^verbatim>\<open>line.split(' ')\<close>: the pieces between single spaces.\<close>

fun split_sp :: "string \<Rightarrow> string list" where
  "split_sp [] = [[]]"
| "split_sp (c # s) =
     (if c = CHR '' '' then [] # split_sp s
      else (case split_sp s of [] \<Rightarrow> [[c]] | w # ws \<Rightarrow> (c # w) # ws))"

text \<open>\<^verbatim>\<open>re.search('p: ([0-9]+), nnz: ([0-9]+)', line)\<close>: the two groups of the
  leftmost match. A group takes all the digits there are, and taking fewer never
  helps, since what follows a group in the pattern is not a digit.\<close>

definition match_here :: "string \<Rightarrow> (string \<times> string) option" where
  "match_here s =
     (if take 3 s = ''p: '' then
        (let g1 = takeWhile is_digit (drop 3 s);
             r1 = dropWhile is_digit (drop 3 s)
         in if g1 \<noteq> [] \<and> take 7 r1 = '', nnz: '' then
              (let g2 = takeWhile is_digit (drop 7 r1)
               in if g2 \<noteq> [] then Some (g1, g2) else None)
            else None)
      else None)"

fun re_search :: "string \<Rightarrow> (string \<times> string) option" where
  "re_search [] = None"
| "re_search (c # s) =
     (case match_here (c # s) of Some g \<Rightarrow> Some g | None \<Rightarrow> re_search s)"


section \<open>The output file of BigQUIC\<close>

text \<open>
  A text file is the list of its lines, each as \<^verbatim>\<open>readline\<close> returns it;
  \<^verbatim>\<open>readline\<close> returns the empty string at the end of the file. The built-ins
  \<^verbatim>\<open>int\<close> and \<^verbatim>\<open>float\<close> on a string are the parameters \<open>to_int\<close> and
  \<open>to_float\<close>, with \<open>None\<close> for \<^verbatim>\<open>ValueError\<close>. The matrix is the list of
  its rows.
\<close>

definition readline :: "string list \<Rightarrow> string \<times> string list" where
  "readline f = (case f of [] \<Rightarrow> ([], []) | line # rest \<Rightarrow> (line, rest))"

definition zeros :: "nat \<Rightarrow> pyfloat list list" where
  "zeros nv = replicate nv (replicate nv (Fin 0))"

text \<open>An index into an axis of length \<open>n\<close>: numpy counts a negative index from the
  end.\<close>

definition np_index :: "nat \<Rightarrow> int \<Rightarrow> nat option" where
  "np_index n i =
     (if 0 \<le> i \<and> i < int n then Some (nat i)
      else if - int n \<le> i \<and> i < 0 then Some (nat (i + int n))
      else None)"

text \<open>\<^verbatim>\<open>precision_mat[i, j] = value\<close> on a matrix of shape \<open>(nv, nv)\<close>\<close>

definition set_entry ::
  "nat \<Rightarrow> pyfloat list list \<Rightarrow> int \<Rightarrow> int \<Rightarrow> pyfloat \<Rightarrow> exn + pyfloat list list" where
  "set_entry nv M i j v =
     (case np_index nv i of
        None \<Rightarrow> Inl IndexError
      | Some a \<Rightarrow>
          (case np_index nv j of
             None \<Rightarrow> Inl IndexError
           | Some b \<Rightarrow> Inr (M[a := (M ! a)[b := v]])))"

text \<open>Lines 537 to 539: one line \<^verbatim>\<open>row col value\<close>.\<close>

definition parse_entry ::
  "(string \<Rightarrow> int option) \<Rightarrow> (string \<Rightarrow> pyfloat option) \<Rightarrow> string
    \<Rightarrow> exn + (int \<times> int \<times> pyfloat)" where
  "parse_entry to_int to_float line =
     (let mas = split_sp line
      in case map to_int (take 2 mas) of
           [Some row, Some col] \<Rightarrow>
             (if length mas < 3 then Inl IndexError
              else (case to_float (mas ! 2) of
                      None \<Rightarrow> Inl ValueError
                    | Some v \<Rightarrow> Inr (row, col, v)))
         | _ \<Rightarrow> Inl ValueError)"

text \<open>The loop \<^verbatim>\<open>for i in range(non_zero)\<close> of lines 536 to 540.\<close>

fun read_entries ::
  "(string \<Rightarrow> int option) \<Rightarrow> (string \<Rightarrow> pyfloat option) \<Rightarrow> nat \<Rightarrow> nat \<Rightarrow> string list
    \<Rightarrow> pyfloat list list \<Rightarrow> exn + pyfloat list list" where
  "read_entries to_int to_float nv 0 f precision_mat = Inr precision_mat"
| "read_entries to_int to_float nv (Suc n) f precision_mat =
     (case parse_entry to_int to_float (fst (readline f)) of
        Inl e \<Rightarrow> Inl e
      | Inr (row, col, v) \<Rightarrow>
          (case set_entry nv precision_mat (row - 1) (col - 1) v of
             Inl e \<Rightarrow> Inl e
           | Inr M \<Rightarrow> read_entries to_int to_float nv n (snd (readline f)) M))"

text \<open>Lines 529 to 540, on the lines \<open>f\<close> of the output file.\<close>

definition parse_output ::
  "(string \<Rightarrow> int option) \<Rightarrow> (string \<Rightarrow> pyfloat option) \<Rightarrow> nat \<Rightarrow> string list
    \<Rightarrow> exn + pyfloat list list" where
  "parse_output to_int to_float nv f =
     (case re_search (fst (readline f)) of
        None \<Rightarrow> Inl AttributeError
      | Some (g1, g2) \<Rightarrow>
          (case to_int g1 of
             None \<Rightarrow> Inl ValueError
           | Some p \<Rightarrow>
               (case to_int g2 of
                  None \<Rightarrow> Inl ValueError
                | Some non_zero \<Rightarrow>
                    if p \<noteq> int nv then Inl AssertionError
                    else read_entries to_int to_float nv (nat non_zero)
                           (snd (readline f)) (zeros nv))))"


section \<open>The file system and the external solvers\<close>

text \<open>
  The state outside the interpreter: the working directory, the directories there
  are, the symbolic links, and the files, by directory and name. The working
  directory is a physical path (the list of its components, none of them a symbolic
  link), and a file is filed under the physical path of its directory;
  \<open>realpath\<close> gives the physical path of the directory that a path names, which is
  the path itself when no component of it is a symbolic link.
  Creating a file in the working directory succeeds; \<^verbatim>\<open>os.remove\<close> and
  \<^verbatim>\<open>open(name, 'r')\<close> raise when the file is not there, \<^verbatim>\<open>os.chdir\<close> when the
  directory is not there.
\<close>

record 'f fs =
  cwd :: "string list"
  is_dir :: "string list \<Rightarrow> bool"
  realpath :: "string list \<Rightarrow> string list"
  files :: "string list \<times> string \<Rightarrow> 'f option"

text \<open>\<^verbatim>\<open>os.chdir\<close> of a relative path that goes down: the new working directory is
  the physical path of the directory reached.\<close>

definition chdir :: "string list \<Rightarrow> 'f fs \<Rightarrow> exn + 'f fs" where
  "chdir rel s =
     (if is_dir s (cwd s @ rel) then Inr (s\<lparr>cwd := realpath s (cwd s @ rel)\<rparr>)
      else Inl OSError)"

text \<open>\<^verbatim>\<open>os.chdir\<close> of \<open>n\<close> times \<^verbatim>\<open>..\<close>: the \<open>n\<close>-th parent of the physical
  working directory (the parent of the root is the root).\<close>

definition chdir_up :: "nat \<Rightarrow> 'f fs \<Rightarrow> 'f fs" where
  "chdir_up n s = s\<lparr>cwd := take (length (cwd s) - n) (cwd s)\<rparr>"

definition write_file :: "string \<Rightarrow> 'f \<Rightarrow> 'f fs \<Rightarrow> 'f fs" where
  "write_file name content s = s\<lparr>files := (files s)((cwd s, name) \<mapsto> content)\<rparr>"

definition read_file :: "string \<Rightarrow> 'f fs \<Rightarrow> exn + 'f" where
  "read_file name s =
     (case files s (cwd s, name) of None \<Rightarrow> Inl OSError | Some content \<Rightarrow> Inr content)"

definition os_remove :: "string \<Rightarrow> 'f fs \<Rightarrow> exn + 'f fs" where
  "os_remove name s =
     (case files s (cwd s, name) of
        None \<Rightarrow> Inl OSError
      | Some content \<Rightarrow> Inr (s\<lparr>files := (files s)((cwd s, name) := None)\<rparr>))"

text \<open>\<^verbatim>\<open>Popen(argv, ...)\<close> and \<^verbatim>\<open>process.wait()\<close>: the child process is the
  parameter \<open>child\<close>. It may fail to start, and it may leave any files behind; it
  cannot change the working directory of the interpreter.\<close>

definition run_process ::
  "('f fs \<Rightarrow> string list \<Rightarrow> exn + (string list \<times> string \<Rightarrow> 'f option)) \<Rightarrow> string list
    \<Rightarrow> 'f fs \<Rightarrow> exn + 'f fs" where
  "run_process child argv s =
     (case child s argv of Inl e \<Rightarrow> Inl e | Inr fl \<Rightarrow> Inr (s\<lparr>files := fl\<rparr>))"


section \<open>\<^verbatim>\<open>QUIC\<close>\<close>

datatype 'b content = Text "string list" | Mat 'b

text \<open>
  The parameters of \<^verbatim>\<open>QUIC._train\<close>, in the order in which line 425 to 431
  evaluate them: \<open>sample_cov\<close> is \<^verbatim>\<open>np.dot(X.T, X) / X.shape[0]\<close>; \<open>np_float\<close>
  is the attribute \<^verbatim>\<open>np.float\<close>, \<open>None\<close> when numpy has no attribute of this name
  (the lookup raises \<^verbatim>\<open>AttributeError\<close> then); \<open>savemat_in\<close> is
  \<^verbatim>\<open>savemat\<close> on the dict of the sample covariance and of the values of
  \<^verbatim>\<open>lamb\<close>, \<^verbatim>\<open>max_iter\<close>, \<^verbatim>\<open>tol\<close> and \<^verbatim>\<open>msg\<close>: it gives the content it
  leaves in the file, and the exception it raises after that, if any.
  \<open>run_octave\<close> is the child process; \<open>loadmat_X\<close> is \<^verbatim>\<open>loadmat(...)['X']\<close> on the
  content of the output file; \<open>quic_inv\<close> is \<^verbatim>\<open>np.linalg.inv\<close>.
\<close>

record ('x, 'b, 'c) quic_lib =
  sample_cov :: "'x \<Rightarrow> exn + 'c"
  np_float :: "(pyval \<Rightarrow> exn + pyval) option"
  savemat_in :: "'c \<Rightarrow> pyval list \<Rightarrow> 'b \<times> exn option"
  run_octave :: "'b content fs \<Rightarrow> string list \<Rightarrow> exn + (string list \<times> string \<Rightarrow> 'b content option)"
  loadmat_X :: "'b content \<Rightarrow> exn + 'c"
  quic_inv :: "'c \<Rightarrow> exn + 'c"

text \<open>Lines 425 to 431: the values of the dict, from left to right, and the file
  that \<^verbatim>\<open>savemat\<close> leaves.\<close>

definition QUIC_savemat ::
  "('x, 'b, 'c) quic_lib \<Rightarrow> nat \<Rightarrow> dict \<Rightarrow> 'x \<Rightarrow> 'b content fs
    \<Rightarrow> 'b content fs \<times> exn option" where
  "QUIC_savemat lib exp_id params X s =
     (case sample_cov lib X of
        Inl e \<Rightarrow> (s, Some e)
      | Inr sc \<Rightarrow>
     (case np_float lib of
        None \<Rightarrow> (s, Some AttributeError)
      | Some to_float \<Rightarrow>
     (case getitem params ''lamb'' of
        Inl e \<Rightarrow> (s, Some e)
      | Inr v \<Rightarrow>
     (case to_float v of
        Inl e \<Rightarrow> (s, Some e)
      | Inr lamb \<Rightarrow>
     (case getitems params [''max_iter'', ''tol'', ''msg''] of
        Inl e \<Rightarrow> (s, Some e)
      | Inr args \<Rightarrow>
          (write_file (str_nat exp_id @ ''.in.mat'')
             (Mat (fst (savemat_in lib sc (lamb # args)))) s,
           snd (savemat_in lib sc (lamb # args))))))))"

definition QUIC_dir :: "string list" where
  "QUIC_dir = [''experiments'', ''methods'', ''QUIC'']"

definition QUIC_script :: "nat \<Rightarrow> string list" where
  "QUIC_script exp_id =
     [''mex -llapack QUIC.C QUIC-mex.C;'' @ nl,
      ''load('' @ quoted (str_nat exp_id @ ''.in.mat'') @ '');'' @ nl,
      ''[X W opt cputime iter dGap] = QUIC('' @ quoted ''default''
        @ '', sample_cov, lamb, tol, msg, max_iter);'' @ nl,
      ''save('' @ quoted ''-mat'' @ '', '' @ quoted (str_nat exp_id @ ''.out.mat'')
        @ '', '' @ quoted ''X'' @ '', '' @ quoted ''W'' @ '', '' @ quoted ''opt''
        @ '', '' @ quoted ''cputime'' @ '', '' @ quoted ''iter'' @ '', ''
        @ quoted ''dGap'' @ '');'' @ nl]"

text \<open>The loop of lines 423 to 442.\<close>

fun QUIC_loop ::
  "('x, 'b, 'c) quic_lib \<Rightarrow> nat \<Rightarrow> dict \<Rightarrow> 'x list \<Rightarrow> 'c list \<Rightarrow> 'b content fs
    \<Rightarrow> 'b content fs \<times> (exn + 'c list)" where
  "QUIC_loop lib exp_id params [] covs s = (s, Inr covs)"
| "QUIC_loop lib exp_id params (X # rest) covs s =
     (case QUIC_savemat lib exp_id params X s of
        (s1, Some e) \<Rightarrow> (s1, Inl e)
      | (s1, None) \<Rightarrow>
     (case run_process (run_octave lib) [''octave'', str_nat exp_id @ ''.m''] s1 of
        Inl e \<Rightarrow> (s1, Inl e)
      | Inr s2 \<Rightarrow>
     (case read_file (str_nat exp_id @ ''.out.mat'') s2 of
        Inl e \<Rightarrow> (s2, Inl e)
      | Inr outs \<Rightarrow>
     (case loadmat_X lib outs of
        Inl e \<Rightarrow> (s2, Inl e)
      | Inr X_prec \<Rightarrow>
     (case quic_inv lib X_prec of
        Inl e \<Rightarrow> (s2, Inl e)
      | Inr c \<Rightarrow> QUIC_loop lib exp_id params rest (covs @ [c]) s2)))))"

text \<open>\<^verbatim>\<open>QUIC._train\<close>; \<open>exp_id\<close> is the number \<^verbatim>\<open>random.randint\<close> returns.\<close>

definition QUIC_train ::
  "('x, 'b, 'c) quic_lib \<Rightarrow> nat \<Rightarrow> ('b content fs, 'x, 'c, 'm) trainfn" where
  "QUIC_train lib exp_id s train_data params =
     (case chdir QUIC_dir s of
        Inl e \<Rightarrow> (s, params, Inl e)
      | Inr s1 \<Rightarrow>
     (let s2 = write_file (str_nat exp_id @ ''.m'') (Text (QUIC_script exp_id)) s1
      in case QUIC_loop lib exp_id params train_data [] s2 of
        (s3, Inl e) \<Rightarrow> (s3, params, Inl e)
      | (s3, Inr covs) \<Rightarrow>
     (case os_remove (str_nat exp_id @ ''.in.mat'') s3 of
        Inl e \<Rightarrow> (s3, params, Inl e)
      | Inr s4 \<Rightarrow>
     (case os_remove (str_nat exp_id @ ''.out.mat'') s4 of
        Inl e \<Rightarrow> (s4, params, Inl e)
      | Inr s5 \<Rightarrow>
     (case os_remove (str_nat exp_id @ ''.m'') s5 of
        Inl e \<Rightarrow> (s5, params, Inl e)
      | Inr s6 \<Rightarrow> (chdir_up 3 s6, params, Inr (Some covs, None)))))))"


text \<open>\<^verbatim>\<open>QUIC.timeit\<close> (lines 455 to 488): the same steps without the reading of the
  output.\<close>

fun QUIC_timeit_loop ::
  "('x, 'b, 'c) quic_lib \<Rightarrow> nat \<Rightarrow> dict \<Rightarrow> 'x list \<Rightarrow> 'b content fs
    \<Rightarrow> 'b content fs \<times> exn option" where
  "QUIC_timeit_loop lib exp_id params [] s = (s, None)"
| "QUIC_timeit_loop lib exp_id params (X # rest) s =
     (case QUIC_savemat lib exp_id params X s of
        (s1, Some e) \<Rightarrow> (s1, Some e)
      | (s1, None) \<Rightarrow>
     (case run_process (run_octave lib) [''octave'', str_nat exp_id @ ''.m''] s1 of
        Inl e \<Rightarrow> (s1, Some e)
      | Inr s2 \<Rightarrow> QUIC_timeit_loop lib exp_id params rest s2))"

definition QUIC_timeit ::
  "('x, 'b, 'c) quic_lib \<Rightarrow> nat \<Rightarrow> 'b content fs \<Rightarrow> dict list \<Rightarrow> 'x list \<Rightarrow> nat
    \<Rightarrow> 'b content fs \<times> dict list \<times> exn option" where
  "QUIC_timeit lib exp_id s h train_data p =
     (case chdir QUIC_dir s of
        Inl e \<Rightarrow> (s, h, Some e)
      | Inr s1 \<Rightarrow>
     (let s2 = write_file (str_nat exp_id @ ''.m'') (Text (QUIC_script exp_id)) s1
      in case QUIC_timeit_loop lib exp_id (h ! p) train_data s2 of
        (s3, Some e) \<Rightarrow> (s3, h, Some e)
      | (s3, None) \<Rightarrow>
     (case os_remove (str_nat exp_id @ ''.in.mat'') s3 of
        Inl e \<Rightarrow> (s3, h, Some e)
      | Inr s4 \<Rightarrow>
     (case os_remove (str_nat exp_id @ ''.out.mat'') s4 of
        Inl e \<Rightarrow> (s4, h, Some e)
      | Inr s5 \<Rightarrow>
     (case os_remove (str_nat exp_id @ ''.m'') s5 of
        Inl e \<Rightarrow> (s5, h, Some e)
      | Inr s6 \<Rightarrow> (chdir_up 3 s6, h, None))))))"


section \<open>\<^verbatim>\<open>BigQUIC\<close>\<close>

text \<open>
  The parameters of \<^verbatim>\<open>BigQUIC._train\<close>: \<open>np_shape\<close> is \<^verbatim>\<open>X.shape\<close>;
  \<open>format_rows\<close> gives the lines that lines 507 and 508 write for the rows, and the
  exception that ends the writing, if any; \<open>format_val\<close> is \<^verbatim>\<open>'{}'.format(v)\<close>;
  \<open>run_bash\<close> is the child process; \<open>builtin_int\<close> and \<open>builtin_float\<close> are
  \<^verbatim>\<open>int\<close> and \<^verbatim>\<open>float\<close>; \<open>linalg_inv\<close> is \<^verbatim>\<open>np.linalg.inv\<close>.
\<close>

record ('x, 'c) bigquic_lib =
  np_shape :: "'x \<Rightarrow> nat \<times> nat"
  format_rows :: "'x \<Rightarrow> string list \<times> exn option"
  format_val :: "pyval \<Rightarrow> string"
  run_bash :: "string list fs \<Rightarrow> string list \<Rightarrow> exn + (string list \<times> string \<Rightarrow> string list option)"
  builtin_int :: "string \<Rightarrow> int option"
  builtin_float :: "string \<Rightarrow> pyfloat option"
  linalg_inv :: "pyfloat list list \<Rightarrow> exn + 'c"

definition BigQUIC_dir :: "string list" where
  "BigQUIC_dir = [''experiments'', ''methods'', ''BigQUIC'', ''bigquic'']"

definition BigQUIC_script :: "string list \<Rightarrow> nat \<Rightarrow> string list" where
  "BigQUIC_script args exp_id =
     [''./bigquic-run -l '' @ args ! 0 @ '' -t '' @ args ! 1 @ '' -q '' @ args ! 2
        @ '' -e '' @ args ! 3 @ '' '' @ str_nat exp_id @ ''.in.txt ''
        @ str_nat exp_id @ ''.out.txt;'' @ nl]"

text \<open>Lines 504 to 519: the input file, and the command file, which
  \<^verbatim>\<open>open\<close> creates empty before the parameters are looked up for its line.\<close>

definition BigQUIC_write ::
  "('x, 'c) bigquic_lib \<Rightarrow> nat \<Rightarrow> dict \<Rightarrow> 'x \<Rightarrow> string list fs
    \<Rightarrow> string list fs \<times> exn option" where
  "BigQUIC_write lib exp_id params X s =
     (let s1 = write_file (str_nat exp_id @ ''.in.txt'')
                 ((str_nat (snd (np_shape lib X)) @ '' '' @ str_nat (fst (np_shape lib X)) @ nl)
                    # fst (format_rows lib X)) s
      in case snd (format_rows lib X) of
        Some e \<Rightarrow> (s1, Some e)
      | None \<Rightarrow>
     (let s2 = write_file (str_nat exp_id @ ''.sh'') [] s1
      in case getitems params [''lamb'', ''max_iter'', ''verbose'', ''tol''] of
        Inl e \<Rightarrow> (s2, Some e)
      | Inr args \<Rightarrow>
          (write_file (str_nat exp_id @ ''.sh'')
             (BigQUIC_script (map (format_val lib) args) exp_id) s2,
           None)))"

text \<open>The loop of lines 503 to 542.\<close>

fun BigQUIC_loop ::
  "('x, 'c) bigquic_lib \<Rightarrow> nat \<Rightarrow> dict \<Rightarrow> 'x list \<Rightarrow> 'c list \<Rightarrow> string list fs
    \<Rightarrow> string list fs \<times> (exn + 'c list)" where
  "BigQUIC_loop lib exp_id params [] covs s = (s, Inr covs)"
| "BigQUIC_loop lib exp_id params (X # rest) covs s =
     (case BigQUIC_write lib exp_id params X s of
        (s2, Some e) \<Rightarrow> (s2, Inl e)
      | (s2, None) \<Rightarrow>
     (case run_process (run_bash lib) [''bash'', str_nat exp_id @ ''.sh''] s2 of
        Inl e \<Rightarrow> (s2, Inl e)
      | Inr s3 \<Rightarrow>
     (case read_file (str_nat exp_id @ ''.out.txt'') s3 of
        Inl e \<Rightarrow> (s3, Inl e)
      | Inr f \<Rightarrow>
     (case parse_output (builtin_int lib) (builtin_float lib) (snd (np_shape lib X)) f of
        Inl e \<Rightarrow> (s3, Inl e)
      | Inr precision_mat \<Rightarrow>
     (case linalg_inv lib precision_mat of
        Inl e \<Rightarrow> (s3, Inl e)
      | Inr c \<Rightarrow> BigQUIC_loop lib exp_id params rest (covs @ [c]) s3)))))"

text \<open>\<^verbatim>\<open>BigQUIC._train\<close>\<close>

definition BigQUIC_train ::
  "('x, 'c) bigquic_lib \<Rightarrow> nat \<Rightarrow> (string list fs, 'x, 'c, 'm) trainfn" where
  "BigQUIC_train lib exp_id s train_data params =
     (case chdir BigQUIC_dir s of
        Inl e \<Rightarrow> (s, params, Inl e)
      | Inr s1 \<Rightarrow>
     (case BigQUIC_loop lib exp_id params train_data [] s1 of
        (s3, Inl e) \<Rightarrow> (s3, params, Inl e)
      | (s3, Inr covs) \<Rightarrow>
     (case os_remove (str_nat exp_id @ ''.in.txt'') s3 of
        Inl e \<Rightarrow> (s3, params, Inl e)
      | Inr s4 \<Rightarrow>
     (case os_remove (str_nat exp_id @ ''.out.txt'') s4 of
        Inl e \<Rightarrow> (s4, params, Inl e)
      | Inr s5 \<Rightarrow>
     (case os_remove (str_nat exp_id @ ''.sh'') s5 of
        Inl e \<Rightarrow> (s5, params, Inl e)
      | Inr s6 \<Rightarrow> (chdir_up 4 s6, params, Inr (Some covs, None)))))))"


text \<open>\<^verbatim>\<open>BigQUIC.timeit\<close> (lines 555 to 589)\<close>

fun BigQUIC_timeit_loop ::
  "('x, 'c) bigquic_lib \<Rightarrow> nat \<Rightarrow> dict \<Rightarrow> 'x list \<Rightarrow> string list fs
    \<Rightarrow> string list fs \<times> exn option" where
  "BigQUIC_timeit_loop lib exp_id params [] s = (s, None)"
| "BigQUIC_timeit_loop lib exp_id params (X # rest) s =
     (case BigQUIC_write lib exp_id params X s of
        (s2, Some e) \<Rightarrow> (s2, Some e)
      | (s2, None) \<Rightarrow>
     (case run_process (run_bash lib) [''bash'', str_nat exp_id @ ''.sh''] s2 of
        Inl e \<Rightarrow> (s2, Some e)
      | Inr s3 \<Rightarrow> BigQUIC_timeit_loop lib exp_id params rest s3))"

definition BigQUIC_timeit ::
  "('x, 'c) bigquic_lib \<Rightarrow> nat \<Rightarrow> string list fs \<Rightarrow> dict list \<Rightarrow> 'x list \<Rightarrow> nat
    \<Rightarrow> string list fs \<times> dict list \<times> exn option" where
  "BigQUIC_timeit lib exp_id s h train_data p =
     (case chdir BigQUIC_dir s of
        Inl e \<Rightarrow> (s, h, Some e)
      | Inr s1 \<Rightarrow>
     (case BigQUIC_timeit_loop lib exp_id (h ! p) train_data s1 of
        (s3, Some e) \<Rightarrow> (s3, h, Some e)
      | (s3, None) \<Rightarrow>
     (case os_remove (str_nat exp_id @ ''.in.txt'') s3 of
        Inl e \<Rightarrow> (s3, h, Some e)
      | Inr s4 \<Rightarrow>
     (case os_remove (str_nat exp_id @ ''.out.txt'') s4 of
        Inl e \<Rightarrow> (s4, h, Some e)
      | Inr s5 \<Rightarrow>
     (case os_remove (str_nat exp_id @ ''.sh'') s5 of
        Inl e \<Rightarrow> (s5, h, Some e)
      | Inr s6 \<Rightarrow> (chdir_up 4 s6, h, None))))))"


section \<open>Test doubles and sample inputs\<close>

text \<open>An estimator that returns the candidate value of the hyperparameter \<open>s\<close> as its
  covariance set, and a scoring function that reads it back as the score.\<close>

definition echo_train :: "(unit, unit, pyval, unit) trainfn" where
  "echo_train w train_data d =
     (w, d, Inr (case map_of d ''s'' of None \<Rightarrow> None | Some v \<Rightarrow> Some [v], None))"

definition echo_score :: "(unit, pyval) scorefn" where
  "echo_score val_data c = (case c of Some [PFloat x] \<Rightarrow> x | _ \<Rightarrow> NaN)"

definition nan_first_spec :: dict where
  "nan_first_spec =
     [(''s'', PList [PFloat NaN, PFloat (Fin 5), PFloat (Fin 3), PFloat NaN, PFloat (Fin 4)])]"

definition nan_first_grid :: "(string \<times> pyval) list list" where
  "nan_first_grid =
     [[(''s'', PFloat NaN)], [(''s'', PFloat (Fin 5))], [(''s'', PFloat (Fin 3))],
      [(''s'', PFloat NaN)], [(''s'', PFloat (Fin 4))]]"

definition group_spec :: dict where
  "group_spec =
     [(''reg'', PDict [(''alpha'', PList [PInt 1, PInt 2]),
                       (''tol'', PList [PInt 3, PInt 4, PInt 5])])]"

definition const_spec :: dict where
  "const_spec = [(''min_var'', PFloat (Fin (1 / 10 ^ 6))), (''s'', PFloat (Fin 2))]"


text \<open>Readers of decimal integers, standing for \<^verbatim>\<open>int\<close> and \<^verbatim>\<open>float\<close> on the
  strings of the sample files.\<close>

definition dec_int :: "string \<Rightarrow> int option" where
  "dec_int s =
     (let t = takeWhile (\<lambda>c. c \<noteq> CHR 0x0A) s;
          ds = (case t of c # r \<Rightarrow> if c = CHR ''-'' then r else t | [] \<Rightarrow> [])
      in if ds \<noteq> [] \<and> list_all is_digit ds
         then Some ((if take 1 t = ''-'' then - 1 else 1)
                    * int (foldl (\<lambda>n c. 10 * n + (of_char c - 48)) 0 ds))
         else None)"

definition dec_float :: "string \<Rightarrow> pyfloat option" where
  "dec_float s = map_option (\<lambda>i. Fin (real_of_int i)) (dec_int s)"

definition out_ok :: "string list" where
  "out_ok = [''p: 2, nnz: 3'' @ nl, ''1 1 4'' @ nl, ''2 2 5'' @ nl, ''1 2 -1'' @ nl]"

definition out_bad :: "string list" where
  "out_bad = [''error: out of memory'' @ nl]"

text \<open>A file system with every directory and no file, and solvers that write a given
  output file. A segment of the BigQUIC double is its shape, the matrix inversions
  are the identity.\<close>

definition start_fs :: "'f fs" where
  "start_fs =
     \<lparr>cwd = [''repo''], is_dir = (\<lambda>p. True), realpath = (\<lambda>p. p), files = (\<lambda>x. None)\<rparr>"

text \<open>The same with \<^verbatim>\<open>experiments/methods/QUIC\<close> a symbolic link to
  \<^verbatim>\<open>/opt/QUIC\<close>.\<close>

definition linked_fs :: "'f fs" where
  "linked_fs =
     \<lparr>cwd = [''repo''], is_dir = (\<lambda>p. True),
      realpath = (\<lambda>p. if p = [''repo'', ''experiments'', ''methods'', ''QUIC'']
                      then [''opt'', ''QUIC''] else p),
      files = (\<lambda>x. None)\<rparr>"

definition bq_lib :: "string list \<Rightarrow> (nat \<times> nat, pyfloat list list) bigquic_lib" where
  "bq_lib out =
     \<lparr>np_shape = (\<lambda>X. X), format_rows = (\<lambda>X. ([], None)), format_val = (\<lambda>v. ''1''),
      run_bash = (\<lambda>s argv. Inr ((files s)((cwd s, ''7.out.txt'') \<mapsto> out))),
      builtin_int = dec_int, builtin_float = dec_float, linalg_inv = Inr\<rparr>"

definition bq_params :: dict where
  "bq_params =
     [(''lamb'', PInt 1), (''max_iter'', PInt 1), (''verbose'', PInt 1), (''tol'', PInt 1)]"

definition bq_run ::
  "string list \<Rightarrow> string list fs \<times> dict \<times> (exn + (pyfloat list list list option \<times> unit option))"
  where
  "bq_run out = BigQUIC_train (bq_lib out) 7 start_fs [(5, 2)] bq_params"

definition quic_lib :: "nat content \<Rightarrow> (unit, nat, nat) quic_lib" where
  "quic_lib out =
     \<lparr>sample_cov = (\<lambda>X. Inr 0), np_float = Some Inr, savemat_in = (\<lambda>sc args. (0, None)),
      run_octave = (\<lambda>s argv. Inr ((files s)((cwd s, ''7.out.mat'') \<mapsto> out))),
      loadmat_X = (\<lambda>f. case f of Mat b \<Rightarrow> Inr b | Text ls \<Rightarrow> Inl ValueError),
      quic_inv = Inr\<rparr>"

definition quic_params :: dict where
  "quic_params =
     [(''lamb'', PInt 1), (''max_iter'', PInt 100), (''tol'', PInt 1), (''msg'', PInt 0)]"

definition quic_run ::
  "nat content \<Rightarrow> nat content fs \<times> dict \<times> (exn + (nat list option \<times> unit option))" where
  "quic_run out = QUIC_train (quic_lib out) 7 start_fs [()] quic_params"

text \<open>A file system without the directories of the solvers, and the runs of the
  claims on the working directory and the files: QUIC behind a symbolic link, BigQUIC
  with no parameters, and both solvers without their directory.\<close>

definition no_dir_fs :: "'f fs" where
  "no_dir_fs =
     \<lparr>cwd = [''repo''], is_dir = (\<lambda>p. False), realpath = (\<lambda>p. p), files = (\<lambda>x. None)\<rparr>"

definition quic_linked_run ::
  "nat content fs \<times> dict \<times> (exn + (nat list option \<times> unit option))" where
  "quic_linked_run = QUIC_train (quic_lib (Mat 3)) 7 linked_fs [()] quic_params"

definition bq_missing_run ::
  "string list fs \<times> dict \<times> (exn + (pyfloat list list list option \<times> unit option))"
  where
  "bq_missing_run = BigQUIC_train (bq_lib out_ok) 7 start_fs [(5, 2)] []"

definition quic_no_dir_run ::
  "nat content fs \<times> dict \<times> (exn + (nat list option \<times> unit option))" where
  "quic_no_dir_run = QUIC_train (quic_lib (Mat 3)) 7 no_dir_fs [()] quic_params"

definition bq_no_dir_run ::
  "string list fs \<times> dict \<times> (exn + (pyfloat list list list option \<times> unit option))"
  where
  "bq_no_dir_run = BigQUIC_train (bq_lib out_ok) 7 no_dir_fs [(5, 2)] bq_params"

definition truth :: "(pyval, unit) ground_truth" where
  "truth = GroundTruth_init echo_score (Some [PFloat (Fin 1)]) [] ''Ground Truth''"

definition echo_selected :: "(pyval, unit) baseline" where
  "echo_selected =
     Baseline_init ''echo''
       \<lparr>self_trained := True, self_val_score := Some (Fin 2), self_params := Some 1,
        self_covs := Some [PFloat (Fin 2)], self_method := None\<rparr>"


text \<open>An estimator that raises \<^verbatim>\<open>ValueError\<close> on the segment 2, and a T-CorEx
  model that is the dict it was built from.\<close>

definition flaky :: "pyval list \<Rightarrow> nat \<Rightarrow> exn + nat" where
  "flaky args x = (if x = 2 then Inl ValueError else Inr (x + length args))"

definition all_params :: dict where
  "all_params =
     [(''n_components'', PInt 2), (''alpha'', PInt 1), (''ridge_alpha'', PInt 1),
      (''max_iter'', PInt 10), (''tol'', PInt 1)]"

definition tcorex_double :: "dict \<Rightarrow> unit list \<Rightarrow> exn + dict" where
  "tcorex_double kwargs train_data = Inr kwargs"

definition tcorex_cov :: "dict \<Rightarrow> exn + pyval list option" where
  "tcorex_cov c = Inr (case map_of c ''s'' of None \<Rightarrow> None | Some v \<Rightarrow> Some [v])"

text \<open>An estimator that notes every dict it is called with in the state outside,
  in front of the state of the estimator it wraps.\<close>

definition logged :: "('w, 'x, 'c, 'm) trainfn \<Rightarrow> (dict list \<times> 'w, 'x, 'c, 'm) trainfn" where
  "logged train lw train_data params =
     (case train (snd lw) train_data params of
        (w, d, r) \<Rightarrow> ((fst lw @ [params], w), d, r))"

text \<open>An estimator that counts its calls in the state outside.\<close>

definition count_train :: "(nat, unit, pyval, unit) trainfn" where
  "count_train n train_data d = (Suc n, d, Inr (None, None))"

definition collide_spec :: dict where
  "collide_spec =
     [(''reg'', PDict [(''l1'', PList [PInt 1, PInt 2])]), (''l1'', PInt 0),
      (''s'', PFloat (Fin 2))]"


section \<open>Predicates of the claims\<close>




text \<open>A child process that deletes no file.\<close>

definition keeps_files ::
  "('f fs \<Rightarrow> string list \<Rightarrow> exn + (string list \<times> string \<Rightarrow> 'f option)) \<Rightarrow> bool" where
  "keeps_files child =
     (\<forall>s argv fl k. child s argv = Inr fl \<longrightarrow> files s k \<noteq> None \<longrightarrow> fl k \<noteq> None)"







section \<open>Sizes of the axes\<close>

fun is_swept :: "pyval \<Rightarrow> bool" where
  "is_swept (PList xs) = True"
| "is_swept (PDict d) = True"
| "is_swept _ = False"

definition iter_size :: "pyval \<Rightarrow> nat" where
  "iter_size v = (case iter_py v of Inr xs \<Rightarrow> length xs | Inl e \<Rightarrow> 0)"

text \<open>The size of the axis an entry of the ParamSpec gives in the code: a list its
  length, a dict the sum of the sizes of its inner values, a constant no axis (the
  factor 1).\<close>

definition axis_size :: "pyval \<Rightarrow> nat" where
  "axis_size v =
     (case v of
        PList xs \<Rightarrow> length xs
      | PDict d \<Rightarrow> sum_list (map (\<lambda>kv. iter_size (snd kv)) d)
      | _ \<Rightarrow> 1)"

text \<open>The sizes of the axes in the words of the specification: one axis for a
  list-valued entry, one axis for every inner key of a dict-valued entry.\<close>

definition spec_axis_sizes :: "dict \<Rightarrow> nat list" where
  "spec_axis_sizes ps =
     concat (map (\<lambda>kv. case snd kv of
                          PList xs \<Rightarrow> [length xs]
                        | PDict d \<Rightarrow> map (\<lambda>kv'. iter_size (snd kv')) d
                        | _ \<Rightarrow> []) ps)"


section \<open>Lemmas on the grid\<close>

lemma length_itertools_product:
  "length (itertools_product axes) = prod_list (map length axes)"
  by (induction axes) (simp_all add: length_concat comp_def sum_list_triv)

lemma expand_dict_length:
  "expand_dict d arr = Inr arr' \<Longrightarrow> length arr' = length arr + axis_size (PDict d)"
  by (induction d arr rule: expand_dict.induct)
     (auto simp: axis_size_def iter_size_def split: sum.splits)

lemma partition_params_axes:
  "partition_params ps sp cp = Inr (sp', cp') \<Longrightarrow>
     \<exists>new. sp' = sp @ new \<and> map length new = map axis_size (filter is_swept (map snd ps))"
proof (induction ps sp cp rule: partition_params.induct)
  case (1 sp cp)
  then show ?case by simp
next
  case (2 k v rest sp cp)
  show ?case
  proof (cases v)
    case (PList xs)
    with 2 show ?thesis by (auto simp: axis_size_def)
  next
    case (PDict d)
    with "2.prems" obtain arr where e: "expand_dict d [] = Inr arr"
      and p: "partition_params rest (sp @ [arr]) cp = Inr (sp', cp')"
      by (auto split: sum.splits)
    from "2.IH"(7) [OF PDict e p] obtain new where
      n: "sp' = (sp @ [arr]) @ new"
         "map length new = map axis_size (filter is_swept (map snd rest))"
      by blast
    from expand_dict_length [OF e] have "length arr = axis_size (PDict d)" by simp
    with n PDict have "sp' = sp @ (arr # new) \<and>
        map length (arr # new) = map axis_size (filter is_swept (map snd ((k, v) # rest)))"
      by simp
    then show ?thesis by blast
  qed (use 2 in auto)
qed

lemma partition_params_swept_only:
  "partition_params ps sp cp = Inr (sp', cp') \<Longrightarrow>
     partition_params (filter (\<lambda>kv. is_swept (snd kv)) ps) sp cp0 = Inr (sp', cp0)"
proof (induction ps sp cp arbitrary: cp0 rule: partition_params.induct)
  case (1 sp cp)
  then show ?case by simp
next
  case (2 k v rest sp cp)
  show ?case
  proof (cases v)
    case (PList xs)
    with 2 show ?thesis by auto
  next
    case (PDict d)
    with "2.prems" obtain arr where e: "expand_dict d [] = Inr arr"
      and p: "partition_params rest (sp @ [arr]) cp = Inr (sp', cp')"
      by (auto split: sum.splits)
    from "2.IH"(7) [OF PDict e p] PDict e show ?thesis by simp
  qed (use 2 in auto)
qed

lemma partition_params_no_axes:
  "list_all (\<lambda>kv. \<not> is_swept (snd kv)) ps \<Longrightarrow>
     \<exists>cp'. partition_params ps sp cp = Inr (sp, cp')"
proof (induction ps sp cp rule: partition_params.induct)
  case (1 sp cp)
  then show ?case by simp
next
  case (2 k v rest sp cp)
  then show ?case by (cases v) auto
qed

lemma prod_list_axis_size:
  "prod_list (map axis_size (filter is_swept vs)) = prod_list (map axis_size vs)"
proof (induction vs)
  case Nil
  then show ?case by simp
next
  case (Cons v vs)
  then show ?case by (cases v) (simp_all add: axis_size_def)
qed


section \<open>Lemmas on the loop of \<^verbatim>\<open>select\<close>\<close>

lemma select_body_calls:
  "select_body train score td vd cp cur st = (st', r) \<Longrightarrow>
     calls st' = calls st @ [assign_all (dict_of cur) cp]"
  by (auto simp: select_body_def Let_def nth_append split: prod.splits sum.splits if_splits)

lemma select_body_heap:
  "select_body train score td vd cp cur st = (st', r) \<Longrightarrow>
     length (heap st') = Suc (length (heap st)) \<and>
     take (length (heap st)) (heap st') = heap st"
  by (auto simp: select_body_def Let_def nth_append split: prod.splits sum.splits if_splits)

text \<open>The rule of line 78: the candidate is retained when no candidate was retained
  before (only then is \<^verbatim>\<open>best_params\<close> \<^verbatim>\<open>None\<close>), or when its score is not
  \<open>NaN\<close> and is less than the best score; otherwise the best stays.\<close>

lemma select_body_rule:
  assumes "train (world st) td (assign_all (dict_of cur) cp) = (w, d, Inr (cur_covs, cur_method))"
    and "select_body train score td vd cp cur st = (st', r)"
  shows "if best_params st = None \<or>
            (\<not> isnan (score vd cur_covs) \<and> flt (score vd cur_covs) (best_score st))
         then best_score st' = score vd cur_covs \<and> best_params st' = Some (length (heap st)) \<and>
              best_covs st' = cur_covs \<and> best_method st' = cur_method
         else best_score st' = best_score st \<and> best_params st' = best_params st \<and>
              best_covs st' = best_covs st \<and> best_method st' = best_method st"
  using assms by (auto simp: select_body_def Let_def nth_append split: if_splits)

lemma select_numeric_first_retained:
  "retained echo_train echo_score [] [] []
     [[(''s'', PFloat (Fin 7))], [(''s'', PFloat (Fin 5))], [(''s'', PFloat (Fin 3))],
      [(''s'', PFloat NaN)], [(''s'', PFloat (Fin 4))]] (init_search () [])
     = [Fin 7, Fin 5, Fin 3, Fin 3, Fin 3]"
  by code_simp

text \<open>Once a \<open>NaN\<close> score is retained, no later candidate replaces it: no score is
  less than \<open>NaN\<close>.\<close>

lemma select_body_nan_sticks:
  "best_params st \<noteq> None \<Longrightarrow> best_score st = NaN \<Longrightarrow>
   select_body train score td vd cp cur st = (st', r) \<Longrightarrow>
     best_params st' = best_params st \<and> best_score st' = NaN \<and>
     best_covs st' = best_covs st \<and> best_method st' = best_method st"
  by (cases "score vd (fst (projr (snd (snd (train (world st) td (assign_all (dict_of cur) cp))))))")
     (auto simp: select_body_def Let_def nth_append isnan_def
           split: prod.splits sum.splits if_splits)

lemma select_loop_nan_sticks:
  "best_params st \<noteq> None \<Longrightarrow> best_score st = NaN \<Longrightarrow>
   select_loop train score td vd cp grid st = (st', r) \<Longrightarrow>
     best_params st' = best_params st \<and> best_score st' = NaN \<and>
     best_covs st' = best_covs st \<and> best_method st' = best_method st"
proof (induction grid arbitrary: st)
  case Nil
  then show ?case by simp
next
  case (Cons cur grid)
  obtain st1 r1 where b: "select_body train score td vd cp cur st = (st1, r1)"
    by (cases "select_body train score td vd cp cur st")
  from select_body_nan_sticks [OF Cons.prems(1,2) b]
  have k: "best_params st1 = best_params st" "best_score st1 = NaN"
    "best_covs st1 = best_covs st" "best_method st1 = best_method st"
    by simp_all
  show ?case
  proof (cases r1)
    case None
    with Cons.prems(3) b have "select_loop train score td vd cp grid st1 = (st', r)" by simp
    from Cons.IH [OF _ k(2) this] k Cons.prems(1) show ?thesis by simp
  next
    case (Some e)
    with Cons.prems(3) b have "st' = st1" by simp
    with k show ?thesis by simp
  qed
qed


section \<open>The selection rule\<close>

text \<open>
  C1. The claim: a candidate replaces the current best exactly when it is the first
  one, or its score is not \<open>NaN\<close> and is less than the best score; for the scores
  \<open>NaN, 5, 3, NaN, 4\<close> the best retained after each step is \<open>NaN, 5, 3, 3, 3\<close>.
  The code at this input: the grid has the five candidates in this order, the best
  score retained after each step is \<open>NaN\<close> five times, and \<^verbatim>\<open>select\<close> returns the
  score \<open>NaN\<close> with the dict (reference 1) and the covariances of the first
  candidate. The test \<^verbatim>\<open>cur_score < best_score\<close> of line 78 is false when
  \<^verbatim>\<open>best_score\<close> is \<open>NaN\<close>, so a first candidate that scores \<open>NaN\<close> is never
  replaced.
\<close>

theorem select_nan_first_never_replaced:
  "grid_of nan_first_spec = Inr (nan_first_grid, []) \<and>
   retained echo_train echo_score [] [] [] nan_first_grid (init_search () [nan_first_spec])
     = [NaN, NaN, NaN, NaN, NaN] \<and>
   snd (snd (select echo_train echo_score (Baseline_init ''echo'') () [nan_first_spec] [] [] 0))
     = Inr (NaN, Some 1, Some [PFloat NaN], None)"
  by code_simp


section \<open>The size of the grid\<close>

text \<open>
  C2, as claimed: a dict-valued entry gives one axis per inner key, and the number of
  grid points is the product of the sizes of these axes. It fails for the entry
  \<^verbatim>\<open>'reg': {'alpha': [1, 2], 'tol': [3, 4, 5]}\<close>: the claimed axes have sizes 2 and
  3, product 6, and the grid of the code has the five points of one joint axis.
\<close>

theorem dict_entry_axes_counterexample:
  "grid_of group_spec =
     Inr ([[(''alpha'', PInt 1)], [(''alpha'', PInt 2)],
           [(''tol'', PInt 3)], [(''tol'', PInt 4)], [(''tol'', PInt 5)]], []) \<and>
   spec_axis_sizes group_spec = [2, 3] \<and>
   prod_list (spec_axis_sizes group_spec) = 6"
  by code_simp

text \<open>
  C2, amended: every list-valued and every dict-valued entry gives exactly one axis,
  the axis of a dict-valued entry holding the pairs of all its inner keys (its size is
  the sum of the sizes of the inner values); the number of grid points is the product
  of the sizes of these axes, which is the product over all entries where a constant
  counts 1: constant entries do not change it.
\<close>

theorem grid_size_product_of_axes:
  assumes "partition_params ps [] [] = Inr (search_params, const_params)"
  shows "map length search_params = map axis_size (filter is_swept (map snd ps)) \<and>
         grid_of ps = Inr (itertools_product (add_dummy search_params), const_params) \<and>
         length (itertools_product (add_dummy search_params))
           = prod_list (map length search_params) \<and>
         prod_list (map length search_params) = prod_list (map (\<lambda>kv. axis_size (snd kv)) ps)"
proof -
  from partition_params_axes [OF assms]
  have l: "map length search_params = map axis_size (filter is_swept (map snd ps))"
    by simp
  have g: "grid_of ps = Inr (itertools_product (add_dummy search_params), const_params)"
    by (simp add: grid_of_def assms)
  have n: "length (itertools_product (add_dummy search_params))
             = prod_list (map length search_params)"
    by (simp add: add_dummy_def length_itertools_product)
  have "prod_list (map length search_params) = prod_list (map axis_size (map snd ps))"
    by (simp only: l prod_list_axis_size)
  then have "prod_list (map length search_params)
               = prod_list (map (\<lambda>kv. axis_size (snd kv)) ps)"
    by (simp add: comp_def)
  with l g n show ?thesis by simp
qed

theorem grid_size_product_of_axes_witness:
  "partition_params ((''n'', PList [PInt 1, PInt 2]) # group_spec @ const_spec) [] []
     = Inr ([[(''n'', PInt 1), (''n'', PInt 2)],
             [(''alpha'', PInt 1), (''alpha'', PInt 2),
              (''tol'', PInt 3), (''tol'', PInt 4), (''tol'', PInt 5)]], const_spec) \<and>
   length (itertools_product (add_dummy
     [[(''n'', PInt 1), (''n'', PInt 2)],
      [(''alpha'', PInt 1), (''alpha'', PInt 2),
       (''tol'', PInt 3), (''tol'', PInt 4), (''tol'', PInt 5)]])) = 10"
proof -
  have h: "partition_params ((''n'', PList [PInt 1, PInt 2]) # group_spec @ const_spec) [] []
     = Inr ([[(''n'', PInt 1), (''n'', PInt 2)],
             [(''alpha'', PInt 1), (''alpha'', PInt 2),
              (''tol'', PInt 3), (''tol'', PInt 4), (''tol'', PInt 5)]], const_spec)"
    by code_simp
  from grid_size_product_of_axes [OF h] h show ?thesis by simp
qed


section \<open>The trained state\<close>

lemma select_raises_self:
  "select train score self w h td vd p = (self', st, Inl e) \<Longrightarrow> self' = self"
  by (auto simp: select_def split: sum.splits prod.splits option.splits)

lemma select_returns_self:
  "select train score self w h td vd p = (self', st, Inr (s, bp, c, m)) \<Longrightarrow>
     self_trained self' \<and> self_covs self' = c \<and> self_val_score self' = Some s \<and>
     self_params self' = bp \<and> self_method self' = m"
  by (auto simp: select_def split: sum.splits prod.splits option.splits)

text \<open>
  C5, as claimed: on every \<^verbatim>\<open>Baseline\<close> instance on which \<^verbatim>\<open>select\<close> has not
  completed, \<^verbatim>\<open>evaluate\<close> and \<^verbatim>\<open>get_covariance\<close> fail. A \<^verbatim>\<open>GroundTruth\<close>
  object is such an instance, and both calls succeed on it right after its
  construction: its constructor sets \<^verbatim>\<open>_trained\<close>.
\<close>

theorem untrained_fails_counterexample:
  "get_covariance truth = Inr (Some [PFloat (Fin 1)]) \<and>
   evaluate echo_score truth [] = Inr (Fin 1)"
  by code_simp

text \<open>
  C5, amended: on an instance as \<^verbatim>\<open>Baseline.__init__\<close> leaves it (every variant
  but \<^verbatim>\<open>GroundTruth\<close>), \<^verbatim>\<open>evaluate\<close> and \<^verbatim>\<open>get_covariance\<close> raise
  \<^verbatim>\<open>AssertionError\<close>; they still do after a call of \<^verbatim>\<open>select\<close> that raised; after
  a call of \<^verbatim>\<open>select\<close> that returned, \<^verbatim>\<open>get_covariance\<close> returns the selected
  covariances and \<^verbatim>\<open>evaluate\<close> their score.
\<close>

theorem untrained_fails_fast:
  "evaluate score (Baseline_init name) data = Inl AssertionError \<and>
   get_covariance (Baseline_init name) = Inl AssertionError \<and>
   (select train score (Baseline_init name) w h td vd p = (self', st, r) \<longrightarrow>
      (case r of
         Inl e \<Rightarrow> evaluate score self' data = Inl AssertionError \<and>
                  get_covariance self' = Inl AssertionError
       | Inr (s, bp, c, m) \<Rightarrow> evaluate score self' data = Inr (score data c) \<and>
                  get_covariance self' = Inr c))"
proof -
  have a: "evaluate score (Baseline_init name) data = Inl AssertionError"
    "get_covariance (Baseline_init name) = Inl AssertionError"
    by (simp_all add: evaluate_def get_covariance_def Baseline_init_def)
  have b: "select train score (Baseline_init name) w h td vd p = (self', st, Inl e) \<Longrightarrow>
      evaluate score self' data = Inl AssertionError \<and>
      get_covariance self' = Inl AssertionError" for e
    using select_raises_self [of train score "Baseline_init name" w h td vd p self' st e] a
    by simp
  have c: "select train score (Baseline_init name) w h td vd p = (self', st, Inr (s, bp, c, m))
      \<Longrightarrow> evaluate score self' data = Inr (score data c) \<and> get_covariance self' = Inr c"
    for s bp c m
    using select_returns_self [of train score "Baseline_init name" w h td vd p self' st s bp c m]
    by (simp add: evaluate_def get_covariance_def)
  from a b c show ?thesis by (auto split: sum.splits)
qed

theorem untrained_fails_fast_witness:
  "select echo_train echo_score (Baseline_init ''echo'') () [const_spec] [] [] 0
     = (echo_selected,
        \<lparr>world = (), heap = [const_spec, (''__dummy__'', PNone) # const_spec],
         best_score = Fin 2, best_params = Some 1, best_covs = Some [PFloat (Fin 2)],
         best_method = None, calls = [(''__dummy__'', PNone) # const_spec]\<rparr>,
        Inr (Fin 2, Some 1, Some [PFloat (Fin 2)], None)) \<and>
   evaluate echo_score echo_selected [] = Inr (echo_score [] (Some [PFloat (Fin 2)])) \<and>
   get_covariance echo_selected = Inr (Some [PFloat (Fin 2)])"
proof -
  have h: "select echo_train echo_score (Baseline_init ''echo'') () [const_spec] [] [] 0
     = (echo_selected,
        \<lparr>world = (), heap = [const_spec, (''__dummy__'', PNone) # const_spec],
         best_score = Fin 2, best_params = Some 1, best_covs = Some [PFloat (Fin 2)],
         best_method = None, calls = [(''__dummy__'', PNone) # const_spec]\<rparr>,
        Inr (Fin 2, Some 1, Some [PFloat (Fin 2)], None))"
    by code_simp
  from untrained_fails_fast [of echo_score "''echo''" "[]" echo_train "()" "[const_spec]"
      "[]" "[]" 0, THEN conjunct2, THEN conjunct2, rule_format, OF h] h
  show ?thesis by simp
qed


section \<open>The ground truth\<close>

text \<open>
  C10. A \<^verbatim>\<open>GroundTruth\<close> object is trained from its construction: with no call of
  \<^verbatim>\<open>select\<close>, \<^verbatim>\<open>get_covariance\<close> returns the covariance set given to the
  constructor and \<^verbatim>\<open>evaluate\<close> returns its score; \<^verbatim>\<open>_train\<close> returns that
  covariance set and the model \<^verbatim>\<open>None\<close> whatever its arguments, and leaves them as
  they are.
\<close>

theorem GroundTruth_trained_from_construction:
  "self_trained (GroundTruth_init score covs test_data name) \<and>
   get_covariance (GroundTruth_init score covs test_data name) = Inr covs \<and>
   evaluate score (GroundTruth_init score covs test_data name) data = Inr (score data covs) \<and>
   GroundTruth_train (GroundTruth_init score covs test_data name) w train_data ps
     = (w, ps, Inr (covs, None))"
  by (simp add: GroundTruth_init_def get_covariance_def evaluate_def GroundTruth_train_def
        baseline.extend_def Baseline_init_def ground_truth.fields_def)


section \<open>The dict of the caller\<close>

lemma select_loop_heap:
  "select_loop train score td vd cp grid st = (st', r) \<Longrightarrow>
     length (heap st) \<le> length (heap st') \<and> take (length (heap st)) (heap st') = heap st"
proof (induction grid arbitrary: st)
  case Nil
  then show ?case by simp
next
  case (Cons cur grid)
  obtain st1 r1 where b: "select_body train score td vd cp cur st = (st1, r1)"
    by (cases "select_body train score td vd cp cur st")
  from select_body_heap [OF b] have h1: "length (heap st1) = Suc (length (heap st))"
    "take (length (heap st)) (heap st1) = heap st" by simp_all
  show ?case
  proof (cases r1)
    case None
    with Cons.prems b have "select_loop train score td vd cp grid st1 = (st', r)" by simp
    from Cons.IH [OF this] have i: "length (heap st1) \<le> length (heap st')"
      "take (length (heap st1)) (heap st') = heap st1" by simp_all
    from i(2) have "take (length (heap st)) (take (length (heap st1)) (heap st'))
        = take (length (heap st)) (heap st1)" by simp
    with h1 have "take (length (heap st)) (heap st') = heap st" by (simp add: min_def)
    with i(1) h1(1) show ?thesis by simp
  next
    case (Some e)
    with Cons.prems b have "st' = st1" by simp
    with h1 show ?thesis by simp
  qed
qed

lemma select_heap:
  "take (length h) (heap (fst (snd (select train score self w h td vd p)))) = h"
proof (cases "grid_of (h ! p)")
  case (Inl e)
  then show ?thesis by (simp add: select_def init_search_def)
next
  case (Inr gc)
  obtain grid cp where gc: "gc = (grid, cp)" by (cases gc)
  obtain st r where l: "select_loop train score td vd cp grid (init_search w h) = (st, r)"
    by (cases "select_loop train score td vd cp grid (init_search w h)")
  from select_loop_heap [OF l] have "take (length h) (heap st) = h"
    by (simp add: init_search_def)
  with Inr gc l show ?thesis by (cases r) (simp_all add: select_def)
qed

lemma timeit_heap:
  "fst (snd (timeit train w h td p)) = h[p := fst (snd (train w td (h ! p)))]"
  by (simp add: timeit_def split: prod.splits sum.splits)

lemma returning_params: "fst (snd (returning w ps r m)) = ps"
  by (simp add: returning_def split: sum.splits)

lemma QUIC_timeit_heap: "fst (snd (QUIC_timeit lib exp_id s h td p)) = h"
  by (simp add: QUIC_timeit_def Let_def split: sum.splits prod.splits option.splits)

lemma BigQUIC_timeit_heap: "fst (snd (BigQUIC_timeit lib exp_id s h td p)) = h"
  by (simp add: BigQUIC_timeit_def Let_def split: sum.splits prod.splits option.splits)

text \<open>
  C9, as claimed: the dict the caller passes is unchanged after every call of
  \<^verbatim>\<open>select\<close> and of \<^verbatim>\<open>timeit\<close>, on every variant. It fails for
  \<^verbatim>\<open>TCorex.timeit\<close>: line 397 assigns \<^verbatim>\<open>params['nt']\<close> in the dict of the
  caller. Called with three segments and the dict \<^verbatim>\<open>{'n_hidden': 8}\<close> (reference
  0), it leaves the dict with the new key \<^verbatim>\<open>nt\<close>.
\<close>

theorem timeit_params_counterexample:
  "TCorex_timeit tcorex_double () [[(''n_hidden'', PInt 8)]] [(), (), ()] 0
     = ((), [[(''n_hidden'', PInt 8), (''nt'', PInt 3)]], None)"
  by code_simp

text \<open>
  C9, amended: the dict of the caller is unchanged after a call of \<^verbatim>\<open>select\<close> on
  every variant, \<^verbatim>\<open>TCorex\<close> too, whatever \<^verbatim>\<open>_train\<close> does to the dict it is
  passed (it is passed a new dict for every grid point), and after a call of
  \<^verbatim>\<open>timeit\<close> on every variant but \<^verbatim>\<open>TCorex\<close>; \<^verbatim>\<open>TCorex.timeit\<close> sets the
  key \<^verbatim>\<open>nt\<close> of the dict of the caller to the number of segments and leaves the
  other keys.
\<close>

theorem caller_params_unchanged:
  "(p < length h \<longrightarrow>
      heap (fst (snd (select train score self w h td vd p))) ! p = h ! p) \<and>
   fst (snd (timeit Baseline_train w h td p)) = h \<and>
   fst (snd (timeit (GroundTruth_train self) w h td p)) = h \<and>
   fst (snd (timeit (Diagonal_train diag_var min_var) w h td p)) = h \<and>
   fst (snd (timeit (LedoitWolf_train sk_LedoitWolf) w h td p)) = h \<and>
   fst (snd (timeit (OAS_train sk_OAS) w h td p)) = h \<and>
   fst (snd (timeit (PCA_train sk_PCA verbose) w h td p)) = h \<and>
   fst (snd (timeit (SparsePCA_train sk_SparsePCA verbose) w h td p)) = h \<and>
   fst (snd (timeit (FactorAnalysis_train sk_FactorAnalysis verbose) w h td p)) = h \<and>
   fst (snd (timeit (GraphLasso_train sk_GraphLasso verbose) w h td p)) = h \<and>
   fst (snd (timeit (LinearCorex_train corex) w h td p)) = h \<and>
   fst (snd (timeit (LinearCorexWholeData_train concatenate corex_fit get_cov) w h td p)) = h \<and>
   fst (snd (TimeVaryingGraphLasso_timeit stack tvgl w h td p)) = h \<and>
   fst (snd (QUIC_timeit qlib exp_id s h td p)) = h \<and>
   fst (snd (BigQUIC_timeit blib exp_id t h td p)) = h \<and>
   fst (snd (TCorex_timeit tcorex w h td p))
     = h[p := AList.update ''nt'' (PInt (int (length td))) (h ! p)]"
proof -
  have 0: "p < length h \<longrightarrow>
      heap (fst (snd (select train score self w h td vd p))) ! p = h ! p"
  proof
    assume p: "p < length h"
    have "take (length h) (heap (fst (snd (select train score self w h td vd p)))) ! p
        = heap (fst (snd (select train score self w h td vd p))) ! p"
      using p by (rule nth_take)
    then show "heap (fst (snd (select train score self w h td vd p))) ! p = h ! p"
      by (simp add: select_heap)
  qed
  have 1: "fst (snd (timeit Baseline_train w h td p)) = h"
    by (simp add: timeit_heap Baseline_train_def)
  have 2: "fst (snd (timeit (GroundTruth_train self) w h td p)) = h"
    by (simp add: timeit_heap GroundTruth_train_def)
  have 3: "fst (snd (timeit (Diagonal_train diag_var min_var) w h td p)) = h"
    by (simp add: timeit_heap Diagonal_train_def returning_params)
  have 4: "fst (snd (timeit (LedoitWolf_train sk_LedoitWolf) w h td p)) = h"
    by (simp add: timeit_heap LedoitWolf_train_def returning_params)
  have 5: "fst (snd (timeit (OAS_train sk_OAS) w h td p)) = h"
    by (simp add: timeit_heap OAS_train_def returning_params)
  have 6: "fst (snd (timeit (PCA_train sk_PCA verbose) w h td p)) = h"
    by (simp add: timeit_heap PCA_train_def returning_params)
  have 7: "fst (snd (timeit (SparsePCA_train sk_SparsePCA verbose) w h td p)) = h"
    by (simp add: timeit_heap SparsePCA_train_def returning_params)
  have 8: "fst (snd (timeit (FactorAnalysis_train sk_FactorAnalysis verbose) w h td p)) = h"
    by (simp add: timeit_heap FactorAnalysis_train_def returning_params)
  have 9: "fst (snd (timeit (GraphLasso_train sk_GraphLasso verbose) w h td p)) = h"
    by (simp add: timeit_heap GraphLasso_train_def returning_params)
  have 10: "fst (snd (timeit (LinearCorex_train corex) w h td p)) = h"
    by (simp add: timeit_heap LinearCorex_train_def returning_params)
  have 11: "fst (snd (timeit (LinearCorexWholeData_train concatenate corex_fit get_cov)
                        w h td p)) = h"
    by (simp add: timeit_heap LinearCorexWholeData_train_def returning_params
          split: sum.splits)
  have 12: "fst (snd (TimeVaryingGraphLasso_timeit stack tvgl w h td p)) = h"
    by (simp add: TimeVaryingGraphLasso_timeit_def split: sum.splits)
  have 13: "fst (snd (QUIC_timeit qlib exp_id s h td p)) = h"
    by (rule QUIC_timeit_heap)
  have 14: "fst (snd (BigQUIC_timeit blib exp_id t h td p)) = h"
    by (rule BigQUIC_timeit_heap)
  have 15: "fst (snd (TCorex_timeit tcorex w h td p))
     = h[p := AList.update ''nt'' (PInt (int (length td))) (h ! p)]"
    by (simp add: TCorex_timeit_def Let_def split: sum.splits)
  from 0 1 2 3 4 5 6 7 8 9 10 11 12 13 14 15 show ?thesis by blast
qed

theorem caller_params_unchanged_witness:
  "0 < length [collide_spec] \<and>
   heap (fst (snd (select (TCorex_train tcorex_double tcorex_cov) echo_score
                     (Baseline_init ''T-Corex'') () [collide_spec] [(), (), ()] [] 0))) ! 0
     = [collide_spec] ! 0 \<and>
   heap (fst (snd (select (TCorex_train tcorex_double tcorex_cov) echo_score
                     (Baseline_init ''T-Corex'') () [collide_spec] [(), (), ()] [] 0))) ! 1
     = [(''l1'', PInt 0), (''s'', PFloat (Fin 2)), (''nt'', PInt 3)]"
proof -
  have l: "0 < length [collide_spec]" by simp
  have f: "heap (fst (snd (select (TCorex_train tcorex_double tcorex_cov) echo_score
                     (Baseline_init ''T-Corex'') () [collide_spec] [(), (), ()] [] 0))) ! 1
     = [(''l1'', PInt 0), (''s'', PFloat (Fin 2)), (''nt'', PInt 3)]"
    by code_simp
  from caller_params_unchanged [of 0 "[collide_spec]"
      "TCorex_train tcorex_double tcorex_cov" echo_score "Baseline_init ''T-Corex''" "()"
      "[(), (), ()]" "[]", THEN conjunct1, rule_format, OF l] l f
  show ?thesis by blast
qed


section \<open>A ParamSpec of constants\<close>

text \<open>An estimator that notes its calls sees every dict that \<^verbatim>\<open>select\<close> hands to
  \<^verbatim>\<open>_train\<close>, and the estimator it wraps runs as it would alone.\<close>

lemma logged_apply:
  "logged train (l, w) td d
     = ((l @ [d], fst (train w td d)), fst (snd (train w td d)), snd (snd (train w td d)))"
  by (simp add: logged_def split: prod.splits)

lemma select_single:
  assumes g: "grid_of (h ! p) = Inr ([cur], cp)"
  shows "world (fst (snd (select train score self w h td vd p)))
           = fst (train w td (assign_all (dict_of cur) cp)) \<and>
         heap (fst (snd (select train score self w h td vd p)))
           = h @ [fst (snd (train w td (assign_all (dict_of cur) cp)))] \<and>
         snd (snd (select train score self w h td vd p))
           = (case snd (snd (train w td (assign_all (dict_of cur) cp))) of
                Inl e \<Rightarrow> Inl e
              | Inr (covs, m) \<Rightarrow> Inr (score vd covs, Some (length h), covs, m))"
proof -
  obtain w' d' r' where t: "train w td (assign_all (dict_of cur) cp) = (w', d', r')"
    by (cases "train w td (assign_all (dict_of cur) cp)")
  show ?thesis
  proof (cases r')
    case (Inl e)
    with t g show ?thesis
      by (simp add: select_def select_body_def init_search_def Let_def nth_append)
  next
    case (Inr cm)
    obtain covs m where "cm = (covs, m)" by (cases cm)
    with Inr t g show ?thesis
      by (simp add: select_def select_body_def init_search_def Let_def nth_append)
  qed
qed

text \<open>
  C6. When no entry of the ParamSpec is a list or a dict, the grid is the one point of
  the placeholder axis \<^verbatim>\<open>('__dummy__', None)\<close>, and \<^verbatim>\<open>select\<close> applies
  \<^verbatim>\<open>_train\<close> exactly once, to the dict of that point with the constants assigned
  into it: the state outside after \<^verbatim>\<open>select\<close> is the state after one application
  of \<^verbatim>\<open>_train\<close> to the state before, the heap has gained the one dict as that
  application left it, \<^verbatim>\<open>select\<close> raises what the application raises and otherwise
  returns the score of its covariances with that dict, its covariances and its model,
  and an estimator that notes its calls has noted this one dict and no other.
\<close>

theorem select_constants_train_once:
  assumes "list_all (\<lambda>kv. \<not> is_swept (snd kv)) (h ! p)"
  shows "\<exists>const_params.
           grid_of (h ! p) = Inr ([[(''__dummy__'', PNone)]], const_params) \<and>
           world (fst (snd (select train score self w h td vd p)))
             = fst (train w td (assign_all (dict_of [(''__dummy__'', PNone)]) const_params)) \<and>
           heap (fst (snd (select train score self w h td vd p)))
             = h @ [fst (snd (train w td
                      (assign_all (dict_of [(''__dummy__'', PNone)]) const_params)))] \<and>
           snd (snd (select train score self w h td vd p))
             = (case snd (snd (train w td
                         (assign_all (dict_of [(''__dummy__'', PNone)]) const_params))) of
                  Inl e \<Rightarrow> Inl e
                | Inr (covs, m) \<Rightarrow> Inr (score vd covs, Some (length h), covs, m)) \<and>
           fst (world (fst (snd (select (logged train) score self ([], w) h td vd p))))
             = [assign_all (dict_of [(''__dummy__'', PNone)]) const_params]"
proof -
  from partition_params_no_axes [OF assms, of "[]" "[]"] obtain cp
    where p: "partition_params (h ! p) [] [] = Inr ([], cp)" by blast
  then have g: "grid_of (h ! p) = Inr ([[(''__dummy__'', PNone)]], cp)"
    by (simp add: grid_of_def add_dummy_def)
  from select_single [OF g, of "logged train" score self "([], w)" td vd]
  have "fst (world (fst (snd (select (logged train) score self ([], w) h td vd p))))
          = [assign_all (dict_of [(''__dummy__'', PNone)]) cp]"
    by (simp add: logged_apply)
  with g select_single [OF g, of train score self w td vd] show ?thesis by blast
qed

theorem select_constants_train_once_witness:
  "list_all (\<lambda>kv. \<not> is_swept (snd kv)) ([const_spec] ! 0) \<and>
   grid_of ([const_spec] ! 0) = Inr ([[(''__dummy__'', PNone)]], const_spec) \<and>
   world (fst (snd (select count_train echo_score (Baseline_init ''Diagonal'') 0
                      [const_spec] [] [] 0))) = 1 \<and>
   fst (world (fst (snd (select (logged count_train) echo_score (Baseline_init ''Diagonal'')
                      ([], 0) [const_spec] [] [] 0))))
     = [(''__dummy__'', PNone) # const_spec]"
proof -
  have h: "list_all (\<lambda>kv. \<not> is_swept (snd kv)) ([const_spec] ! 0)"
    by (simp add: const_spec_def)
  have g: "grid_of ([const_spec] ! 0) = Inr ([[(''__dummy__'', PNone)]], const_spec)"
    by code_simp
  have m: "assign_all (dict_of [(''__dummy__'', PNone)]) const_spec
             = (''__dummy__'', PNone) # const_spec"
    by code_simp
  from select_constants_train_once [OF h, of count_train echo_score
      "Baseline_init ''Diagonal''" 0 "[]" "[]"] g
  have "world (fst (snd (select count_train echo_score (Baseline_init ''Diagonal'') 0
                      [const_spec] [] [] 0)))
          = fst (count_train 0 [] (assign_all (dict_of [(''__dummy__'', PNone)]) const_spec))"
    "fst (world (fst (snd (select (logged count_train) echo_score
                      (Baseline_init ''Diagonal'') ([], 0) [const_spec] [] [] 0))))
          = [assign_all (dict_of [(''__dummy__'', PNone)]) const_spec]"
    by auto
  with h g m show ?thesis by (simp add: count_train_def)
qed


section \<open>The constants in the dict of a grid point\<close>

lemma select_body_logged:
  "select_body (logged train) score td vd cp cur st = (st', r) \<Longrightarrow>
     fst (world st') = fst (world st) @ [assign_all (dict_of cur) cp]"
  by (cases "world st")
     (auto simp: select_body_def logged_apply Let_def nth_append
           split: prod.splits sum.splits if_splits)

lemma select_loop_logged:
  "select_loop (logged train) score td vd cp grid st = (st', r) \<Longrightarrow>
     \<exists>n\<le>length grid.
        fst (world st')
          = fst (world st) @ map (\<lambda>cur. assign_all (dict_of cur) cp) (take n grid) \<and>
        (r = None \<longrightarrow> n = length grid)"
proof (induction grid arbitrary: st)
  case Nil
  then show ?case by simp
next
  case (Cons cur grid)
  obtain st1 r1 where b: "select_body (logged train) score td vd cp cur st = (st1, r1)"
    by (cases "select_body (logged train) score td vd cp cur st")
  note c = select_body_logged [OF b]
  show ?case
  proof (cases r1)
    case None
    with Cons.prems b have "select_loop (logged train) score td vd cp grid st1 = (st', r)"
      by simp
    from Cons.IH [OF this] obtain n where n: "n \<le> length grid"
      "fst (world st')
         = fst (world st1) @ map (\<lambda>cur. assign_all (dict_of cur) cp) (take n grid)"
      "r = None \<longrightarrow> n = length grid" by blast
    with c have "Suc n \<le> length (cur # grid) \<and>
        fst (world st') = fst (world st)
          @ map (\<lambda>cur. assign_all (dict_of cur) cp) (take (Suc n) (cur # grid)) \<and>
        (r = None \<longrightarrow> Suc n = length (cur # grid))" by simp
    then show ?thesis by blast
  next
    case (Some e)
    with Cons.prems b have "st' = st1" "r = Some e" by simp_all
    with c have "Suc 0 \<le> length (cur # grid) \<and>
        fst (world st') = fst (world st)
          @ map (\<lambda>cur. assign_all (dict_of cur) cp) (take (Suc 0) (cur # grid)) \<and>
        (r = None \<longrightarrow> Suc 0 = length (cur # grid))" by simp
    then show ?thesis by blast
  qed
qed

lemma select_logged:
  assumes g: "grid_of (h ! p) = Inr (grid, cp)"
    and s: "select (logged train) score self ([], w) h td vd p = (self', st, r)"
  shows "\<exists>n\<le>length grid.
           fst (world st) = map (\<lambda>cur. assign_all (dict_of cur) cp) (take n grid) \<and>
           (\<not> isl r \<longrightarrow> n = length grid)"
proof -
  obtain st1 r1 where l:
    "select_loop (logged train) score td vd cp grid (init_search ([], w) h) = (st1, r1)"
    by (cases "select_loop (logged train) score td vd cp grid (init_search ([], w) h)")
  have e: "st = st1 \<and> (\<not> isl r) = (r1 = None)"
  proof (cases r1)
    case None
    with s g l show ?thesis by (auto simp: select_def)
  next
    case (Some e)
    with s g l show ?thesis by (auto simp: select_def)
  qed
  from select_loop_logged [OF l] e show ?thesis by (simp add: init_search_def)
qed


lemma map_of_assign_all:
  "distinct (map fst src) \<Longrightarrow> map_of (assign_all d src) = map_of d ++ map_of src"
proof (induction src arbitrary: d)
  case Nil
  then show ?case by (simp add: assign_all_def)
next
  case (Cons kv src)
  have "assign_all d (kv # src) = assign_all (AList.update (fst kv) (snd kv) d) src"
    by (simp add: assign_all_def)
  moreover from Cons have "map_of (assign_all (AList.update (fst kv) (snd kv) d) src)
      = map_of (AList.update (fst kv) (snd kv) d) ++ map_of src" by simp
  moreover from Cons.prems have "fst kv \<notin> dom (map_of src)"
    by (simp add: dom_map_of_conv_image_fst)
  ultimately show ?case
    by (cases kv) (auto simp: update_conv' map_add_def fun_eq_iff split: option.splits)
qed

lemma distinct_assign_all:
  "distinct (map fst d) \<Longrightarrow> distinct (map fst (assign_all d src))"
  unfolding assign_all_def
  by (induction src arbitrary: d) (simp_all add: distinct_update)

lemma partition_params_consts:
  "partition_params ps sp cp = Inr (sp', cp') \<Longrightarrow>
     cp' = assign_all cp (filter (\<lambda>kv. \<not> is_swept (snd kv)) ps)"
proof (induction ps sp cp rule: partition_params.induct)
  case (1 sp cp)
  then show ?case by (simp add: assign_all_def)
next
  case (2 k v rest sp cp)
  show ?case
  proof (cases v)
    case (PList xs)
    with 2 show ?thesis by auto
  next
    case (PDict d)
    with "2.prems" obtain arr where e: "expand_dict d [] = Inr arr"
      and p: "partition_params rest (sp @ [arr]) cp = Inr (sp', cp')"
      by (auto split: sum.splits)
    from "2.IH"(7) [OF PDict e p] PDict show ?thesis by simp
  qed (use 2 in \<open>auto simp: assign_all_def\<close>)
qed

text \<open>
  C8. For a ParamSpec (a dict: its keys are distinct) with the grid \<open>grid\<close> and the
  constants \<open>const_params\<close>, and an estimator that notes the dicts it is called
  with: the dicts that \<^verbatim>\<open>_train\<close> has received when \<^verbatim>\<open>select\<close> ends are the
  dicts of the grid points, in order, each with the constants assigned into it (of
  all the grid points when \<^verbatim>\<open>select\<close> returns, of the first ones up to the call
  that raised otherwise); in such a dict a key of the constants has the value of the
  constant, and the other keys the value of the grid point; every constant entry of
  the ParamSpec is among the constants; and the grid is the grid of the ParamSpec
  without its constant entries.
\<close>

theorem select_constants_win:
  assumes g: "grid_of (h ! p) = Inr (grid, const_params)"
    and d: "distinct (map fst (h ! p))"
    and s: "select (logged train) score self ([], w) h td vd p = (self', st, r)"
  shows "(\<exists>n\<le>length grid.
            fst (world st)
              = map (\<lambda>cur. assign_all (dict_of cur) const_params) (take n grid) \<and>
            (\<not> isl r \<longrightarrow> n = length grid)) \<and>
         (\<forall>cur. map_of (assign_all (dict_of cur) const_params)
                   = map_of (dict_of cur) ++ map_of const_params) \<and>
         (\<forall>k v. (k, v) \<in> set (h ! p) \<and> \<not> is_swept v \<longrightarrow> map_of const_params k = Some v) \<and>
         grid_of (filter (\<lambda>kv. is_swept (snd kv)) (h ! p)) = Inr (grid, [])"
proof -
  from g obtain sp where p: "partition_params (h ! p) [] [] = Inr (sp, const_params)"
    and gr: "grid = itertools_product (add_dummy sp)"
    by (auto simp: grid_of_def split: sum.splits)
  let ?cs = "filter (\<lambda>kv. \<not> is_swept (snd kv)) (h ! p)"
  from partition_params_consts [OF p] have c: "const_params = assign_all [] ?cs" .
  from d have dc: "distinct (map fst ?cs)" by (rule distinct_map_filter)
  have dcp: "distinct (map fst const_params)"
    unfolding c by (rule distinct_assign_all) simp
  have m: "map_of const_params = map_of ?cs"
    unfolding c by (simp add: map_of_assign_all [OF dc])
  have 2: "\<forall>cur. map_of (assign_all (dict_of cur) const_params)
                   = map_of (dict_of cur) ++ map_of const_params"
    by (simp add: map_of_assign_all [OF dcp])
  have 3: "\<forall>k v. (k, v) \<in> set (h ! p) \<and> \<not> is_swept v \<longrightarrow> map_of const_params k = Some v"
  proof (intro allI impI)
    fix k v assume "(k, v) \<in> set (h ! p) \<and> \<not> is_swept v"
    then have "(k, v) \<in> set ?cs" by simp
    with dc show "map_of const_params k = Some v" by (simp add: m)
  qed
  from partition_params_swept_only [OF p, of "[]"] gr
  have 4: "grid_of (filter (\<lambda>kv. is_swept (snd kv)) (h ! p)) = Inr (grid, [])"
    by (simp add: grid_of_def)
  from select_logged [OF g s] 2 3 4 show ?thesis by blast
qed

theorem select_constants_win_witness:
  "grid_of ([collide_spec] ! 0)
     = Inr ([[(''l1'', PInt 1)], [(''l1'', PInt 2)]],
            [(''l1'', PInt 0), (''s'', PFloat (Fin 2))]) \<and>
   fst (world (fst (snd (select (logged echo_train) echo_score (Baseline_init ''echo'')
                           ([], ()) [collide_spec] [] [] 0))))
     = map (\<lambda>cur. assign_all (dict_of cur) [(''l1'', PInt 0), (''s'', PFloat (Fin 2))])
         [[(''l1'', PInt 1)], [(''l1'', PInt 2)]] \<and>
   map_of (assign_all (dict_of [(''l1'', PInt 1)])
             [(''l1'', PInt 0), (''s'', PFloat (Fin 2))]) ''l1'' = Some (PInt 0) \<and>
   map_of [(''l1'', PInt 0), (''s'', PFloat (Fin 2))] ''s'' = Some (PFloat (Fin 2)) \<and>
   grid_of (filter (\<lambda>kv. is_swept (snd kv)) ([collide_spec] ! 0))
     = Inr ([[(''l1'', PInt 1)], [(''l1'', PInt 2)]], [])"
proof -
  let ?sel = "select (logged echo_train) echo_score (Baseline_init ''echo'')
                ([], ()) [collide_spec] [] [] 0"
  have g: "grid_of ([collide_spec] ! 0)
     = Inr ([[(''l1'', PInt 1)], [(''l1'', PInt 2)]],
            [(''l1'', PInt 0), (''s'', PFloat (Fin 2))])"
    by code_simp
  have d: "distinct (map fst ([collide_spec] ! 0))"
    by (simp add: collide_spec_def)
  have r: "\<not> isl (snd (snd ?sel))" by code_simp
  have s: "?sel = (fst ?sel, fst (snd ?sel), snd (snd ?sel))" by simp
  note t = select_constants_win [OF g d s]
  from t r have 0: "fst (world (fst (snd ?sel)))
     = map (\<lambda>cur. assign_all (dict_of cur) [(''l1'', PInt 0), (''s'', PFloat (Fin 2))])
         [[(''l1'', PInt 1)], [(''l1'', PInt 2)]]"
    by auto
  from t have "map_of (assign_all (dict_of [(''l1'', PInt 1)])
                 [(''l1'', PInt 0), (''s'', PFloat (Fin 2))])
      = map_of (dict_of [(''l1'', PInt 1)]) ++ map_of [(''l1'', PInt 0), (''s'', PFloat (Fin 2))]"
    by blast
  then have 1: "map_of (assign_all (dict_of [(''l1'', PInt 1)])
             [(''l1'', PInt 0), (''s'', PFloat (Fin 2))]) ''l1'' = Some (PInt 0)"
    by simp
  have "(''s'', PFloat (Fin 2)) \<in> set ([collide_spec] ! 0) \<and> \<not> is_swept (PFloat (Fin 2))"
    by (simp add: collide_spec_def)
  with t have 2: "map_of [(''l1'', PInt 0), (''s'', PFloat (Fin 2))] ''s'' = Some (PFloat (Fin 2))"
    by blast
  from t have 3: "grid_of (filter (\<lambda>kv. is_swept (snd kv)) ([collide_spec] ! 0))
     = Inr ([[(''l1'', PInt 1)], [(''l1'', PInt 2)]], [])"
    by blast
  from g 0 1 2 3 show ?thesis by blast
qed


section \<open>A failure in the fit of a segment\<close>

text \<open>What holds of the claim: a covariance list that \<^verbatim>\<open>_train\<close> returns holds the
  covariance of every segment, and a caught failure gives \<^verbatim>\<open>(None, None)\<close> when
  \<^verbatim>\<open>verbose\<close> is false or the exception has an attribute \<^verbatim>\<open>message\<close>. With
  \<^verbatim>\<open>verbose\<close> true and an exception without this attribute, the handler raises
  \<^verbatim>\<open>AttributeError\<close>.\<close>

lemma fit_each_Inr:
  "fit_each est xs covs = Inr covs' \<Longrightarrow>
     \<exists>new. covs' = covs @ new \<and> map est xs = map Inr new"
proof (induction xs arbitrary: covs)
  case Nil
  then show ?case by simp
next
  case (Cons x xs)
  from Cons.prems obtain c where c: "est x = Inr c"
    and r: "fit_each est xs (covs @ [c]) = Inr covs'"
    by (auto split: sum.splits)
  from Cons.IH [OF r] obtain new where "covs' = (covs @ [c]) @ new" "map est xs = map Inr new"
    by blast
  with c have "covs' = covs @ (c # new) \<and> map est (x # xs) = map Inr (c # new)" by simp
  then show ?case by blast
qed

lemma fit_each_first_failure:
  "list_all (\<lambda>y. \<not> isl (est y)) pre \<Longrightarrow> est x = Inl e \<Longrightarrow>
     fit_each est (pre @ x # post) covs = Inl e"
proof (induction pre arbitrary: covs)
  case Nil
  then show ?case by simp
next
  case (Cons y pre)
  from Cons.prems(1) obtain c where "est y = Inr c" by (cases "est y") simp_all
  with Cons show ?case by simp
qed

lemma caught_quietly:
  assumes "list_all (\<lambda>y. \<not> isl (est y)) pre" and "est x = Inl e" and "is_Exception e"
    and "\<not> verbose \<or> message_of e \<noteq> None"
  shows "returning w ps (except_Exception verbose (fit_each est (pre @ x # post) [])) None
           = (w, ps, Inr (None, None))"
  using fit_each_first_failure [OF assms(1,2), of post "[]"] assms(3,4)
  by (auto simp: returning_def except_Exception_def)

lemma handler_raises:
  assumes "list_all (\<lambda>y. \<not> isl (est y)) pre" and "est x = Inl e" and "is_Exception e"
    and "verbose" and "message_of e = None"
  shows "returning w ps (except_Exception verbose (fit_each est (pre @ x # post) [])) None
           = (w, ps, Inl AttributeError)"
  using fit_each_first_failure [OF assms(1,2), of post "[]"] assms(3,4,5)
  by (simp add: returning_def except_Exception_def)

lemma returned_list_is_whole:
  assumes "snd (snd (returning w ps (except_Exception verbose (fit_each est td [])) m))
             = Inr (Some covs, m')"
  shows "map est td = map Inr covs"
proof (cases "fit_each est td []")
  case (Inl e)
  with assms show ?thesis
    by (simp add: returning_def except_Exception_def split: if_splits option.splits)
next
  case (Inr cs)
  with assms have "cs = covs" by (simp add: returning_def except_Exception_def)
  with fit_each_Inr [OF Inr] show ?thesis by simp
qed

text \<open>
  C4. The claim: when the fit of a segment raises an exception that
  \<^verbatim>\<open>except Exception\<close> catches, \<^verbatim>\<open>_train\<close> of \<^verbatim>\<open>PCA\<close>, \<^verbatim>\<open>SparsePCA\<close>,
  \<^verbatim>\<open>FactorAnalysis\<close> and \<^verbatim>\<open>GraphLasso\<close> returns \<^verbatim>\<open>(None, None)\<close>. The code
  at this input: three segments, the fit of the second raises \<^verbatim>\<open>ValueError\<close>, and
  \<^verbatim>\<open>verbose\<close> is true, the default of \<^verbatim>\<open>select\<close>. Each of the four methods
  raises \<^verbatim>\<open>AttributeError\<close>, from the \<^verbatim>\<open>e.message\<close> of its handler (lines 200,
  236, 260 and 284), and returns nothing; with \<^verbatim>\<open>verbose\<close> false the same call
  returns \<^verbatim>\<open>(None, None)\<close>.
\<close>

theorem handler_raises_AttributeError:
  "PCA_train flaky True () [1, 2, 3] all_params
     = ((), all_params, Inl AttributeError :: exn + (nat list option \<times> unit option)) \<and>
   SparsePCA_train flaky True () [1, 2, 3] all_params
     = ((), all_params, Inl AttributeError :: exn + (nat list option \<times> unit option)) \<and>
   FactorAnalysis_train flaky True () [1, 2, 3] all_params
     = ((), all_params, Inl AttributeError :: exn + (nat list option \<times> unit option)) \<and>
   GraphLasso_train flaky True () [1, 2, 3] all_params
     = ((), all_params, Inl AttributeError :: exn + (nat list option \<times> unit option)) \<and>
   PCA_train flaky False () [1, 2, 3] all_params
     = ((), all_params, Inr (None, None :: unit option))"
  by code_simp


section \<open>The parsing of the output file\<close>









lemma split_sp_not_Nil: "split_sp s \<noteq> []"
  by (induction s) (auto split: list.splits)






















section \<open>The temporary files and the working directory\<close>

text \<open>The steps on the file system: none but \<^verbatim>\<open>os.chdir\<close> changes the working
  directory, none but \<^verbatim>\<open>os.remove\<close> and the child process removes a file.\<close>

lemma write_file_simps:
  "cwd (write_file name c s) = cwd s"
  "files s k \<noteq> None \<Longrightarrow> files (write_file name c s) k \<noteq> None"
  "files (write_file name c s) (cwd s, name) = Some c"
  by (simp_all add: write_file_def)

lemma run_process_Inr:
  assumes "run_process child argv s = Inr s'"
  shows "cwd s' = cwd s"
    and "keeps_files child \<Longrightarrow> files s k \<noteq> None \<Longrightarrow> files s' k \<noteq> None"
proof -
  from assms obtain fl where c: "child s argv = Inr fl" and s': "s' = s\<lparr>files := fl\<rparr>"
    by (auto simp: run_process_def split: sum.splits)
  from s' show "cwd s' = cwd s" by simp
  assume "keeps_files child" "files s k \<noteq> None"
  with c have "fl k \<noteq> None" unfolding keeps_files_def by blast
  with s' show "files s' k \<noteq> None" by simp
qed

lemma read_file_Inr: "read_file name s = Inr f \<Longrightarrow> files s (cwd s, name) = Some f"
  by (auto simp: read_file_def split: option.splits)

lemma os_remove_Inr:
  assumes "os_remove name s = Inr s'"
  shows "cwd s' = cwd s" and "files s' (cwd s, name) = None"
    and "files s k = None \<Longrightarrow> files s' k = None"
    and "k \<noteq> (cwd s, name) \<Longrightarrow> files s' k = files s k"
  using assms by (auto simp: os_remove_def split: option.splits)

lemma os_remove_Inl: "os_remove name s = Inl e \<Longrightarrow> files s (cwd s, name) = None"
  by (auto simp: os_remove_def split: option.splits)

lemma os_remove_present:
  "files s (cwd s, name) \<noteq> None \<Longrightarrow> \<exists>s'. os_remove name s = Inr s'"
  by (auto simp: os_remove_def split: option.splits)

lemma chdir_Inr:
  "chdir rel s = Inr s1 \<Longrightarrow>
     is_dir s (cwd s @ rel) \<and> s1 = s\<lparr>cwd := realpath s (cwd s @ rel)\<rparr>"
  by (auto simp: chdir_def split: if_splits)

lemma chdir_Inl: "chdir rel s = Inl e \<Longrightarrow> \<not> is_dir s (cwd s @ rel) \<and> e = OSError"
  by (auto simp: chdir_def split: if_splits)

lemma QUIC_savemat_state:
  "cwd (fst (QUIC_savemat lib exp_id params X s)) = cwd s"
  "files s k \<noteq> None \<Longrightarrow> files (fst (QUIC_savemat lib exp_id params X s)) k \<noteq> None"
  by (auto simp: QUIC_savemat_def write_file_def split: sum.splits option.splits)

lemma QUIC_savemat_None:
  "QUIC_savemat lib exp_id params X s = (s1, None) \<Longrightarrow>
     files s1 (cwd s, str_nat exp_id @ ''.in.mat'') \<noteq> None"
  by (auto simp: QUIC_savemat_def write_file_def split: sum.splits option.splits)

lemma BigQUIC_write_state:
  "cwd (fst (BigQUIC_write lib exp_id params X s)) = cwd s"
  "files s k \<noteq> None \<Longrightarrow> files (fst (BigQUIC_write lib exp_id params X s)) k \<noteq> None"
  "files (fst (BigQUIC_write lib exp_id params X s)) (cwd s, str_nat exp_id @ ''.in.txt'')
     \<noteq> None"
  by (auto simp: BigQUIC_write_def write_file_def Let_def split: sum.splits option.splits)

lemma BigQUIC_write_None:
  "BigQUIC_write lib exp_id params X s = (s1, None) \<Longrightarrow>
     files s1 (cwd s, str_nat exp_id @ ''.sh'') \<noteq> None"
  by (auto simp: BigQUIC_write_def write_file_def Let_def split: sum.splits option.splits)

lemma QUIC_loop_state:
  "cwd (fst (QUIC_loop lib exp_id params td covs s)) = cwd s \<and>
   (keeps_files (run_octave lib) \<longrightarrow> files s k \<noteq> None \<longrightarrow>
      files (fst (QUIC_loop lib exp_id params td covs s)) k \<noteq> None)"
proof (induction td arbitrary: covs s)
  case Nil
  then show ?case by simp
next
  case (Cons X rest)
  obtain s1 r1 where w: "QUIC_savemat lib exp_id params X s = (s1, r1)"
    by (cases "QUIC_savemat lib exp_id params X s")
  with QUIC_savemat_state [where lib = lib and exp_id = exp_id and params = params and X = X and s = s] have
    s1: "cwd s1 = cwd s" "files s k \<noteq> None \<Longrightarrow> files s1 k \<noteq> None"
    by simp_all
  show ?case
  proof (cases r1)
    case (Some e)
    with w s1 show ?thesis by simp
  next
    case None
    show ?thesis
    proof (cases "run_process (run_octave lib) [''octave'', str_nat exp_id @ ''.m''] s1")
      case (Inl e)
      with w None s1 show ?thesis by simp
    next
      case (Inr s2)
      note s2 = run_process_Inr [OF Inr]
      from Cons.IH [of _ s2] s1 s2
      have r: "cwd (fst (QUIC_loop lib exp_id params rest cs s2)) = cwd s \<and>
         (keeps_files (run_octave lib) \<longrightarrow> files s k \<noteq> None \<longrightarrow>
            files (fst (QUIC_loop lib exp_id params rest cs s2)) k \<noteq> None)" for cs
        by simp
      from s1 s2 have k: "cwd s2 = cwd s \<and>
         (keeps_files (run_octave lib) \<longrightarrow> files s k \<noteq> None \<longrightarrow> files s2 k \<noteq> None)"
        by simp
      from w None Inr r k show ?thesis
        by (simp split: sum.splits)
    qed
  qed
qed

lemma BigQUIC_loop_state:
  "cwd (fst (BigQUIC_loop lib exp_id params td covs s)) = cwd s \<and>
   (keeps_files (run_bash lib) \<longrightarrow> files s k \<noteq> None \<longrightarrow>
      files (fst (BigQUIC_loop lib exp_id params td covs s)) k \<noteq> None)"
proof (induction td arbitrary: covs s)
  case Nil
  then show ?case by simp
next
  case (Cons X rest)
  obtain s1 r1 where w: "BigQUIC_write lib exp_id params X s = (s1, r1)"
    by (cases "BigQUIC_write lib exp_id params X s")
  with BigQUIC_write_state [where lib = lib and exp_id = exp_id and params = params and X = X and s = s] have
    s1: "cwd s1 = cwd s" "files s k \<noteq> None \<Longrightarrow> files s1 k \<noteq> None"
    by simp_all
  show ?case
  proof (cases r1)
    case (Some e)
    with w s1 show ?thesis by simp
  next
    case None
    show ?thesis
    proof (cases "run_process (run_bash lib) [''bash'', str_nat exp_id @ ''.sh''] s1")
      case (Inl e)
      with w None s1 show ?thesis by simp
    next
      case (Inr s2)
      note s2 = run_process_Inr [OF Inr]
      from Cons.IH [of _ s2] s1 s2
      have r: "cwd (fst (BigQUIC_loop lib exp_id params rest cs s2)) = cwd s \<and>
         (keeps_files (run_bash lib) \<longrightarrow> files s k \<noteq> None \<longrightarrow>
            files (fst (BigQUIC_loop lib exp_id params rest cs s2)) k \<noteq> None)" for cs
        by simp
      from s1 s2 have k: "cwd s2 = cwd s \<and>
         (keeps_files (run_bash lib) \<longrightarrow> files s k \<noteq> None \<longrightarrow> files s2 k \<noteq> None)"
        by simp
      from w None Inr r k show ?thesis
        by (simp split: sum.splits)
    qed
  qed
qed

text \<open>After the first segment the input file is there, whatever the loop does then;
  and when the loop ends normally, so are the command file and the output file.\<close>

lemma BigQUIC_loop_Cons_files:
  assumes k: "keeps_files (run_bash lib)"
    and l: "BigQUIC_loop lib exp_id params (X # rest) covs s = (s3, r)"
  shows "files s3 (cwd s, str_nat exp_id @ ''.in.txt'') \<noteq> None"
    and "\<not> isl r \<Longrightarrow> files s3 (cwd s, str_nat exp_id @ ''.sh'') \<noteq> None \<and>
                       files s3 (cwd s, str_nat exp_id @ ''.out.txt'') \<noteq> None"
proof -
  obtain s1 r1 where w: "BigQUIC_write lib exp_id params X s = (s1, r1)"
    by (cases "BigQUIC_write lib exp_id params X s")
  with BigQUIC_write_state [where lib = lib and exp_id = exp_id and params = params and X = X and s = s] have
    s1: "cwd s1 = cwd s" "files s1 (cwd s, str_nat exp_id @ ''.in.txt'') \<noteq> None"
    by simp_all
  have "files s3 (cwd s, str_nat exp_id @ ''.in.txt'') \<noteq> None \<and>
    (\<not> isl r \<longrightarrow> files s3 (cwd s, str_nat exp_id @ ''.sh'') \<noteq> None \<and>
                  files s3 (cwd s, str_nat exp_id @ ''.out.txt'') \<noteq> None)"
  proof (cases r1)
    case (Some e)
    with w l s1 show ?thesis by auto
  next
    case None
    from BigQUIC_write_None [OF w [unfolded None]]
    have sh: "files s1 (cwd s, str_nat exp_id @ ''.sh'') \<noteq> None" .
    show ?thesis
    proof (cases "run_process (run_bash lib) [''bash'', str_nat exp_id @ ''.sh''] s1")
      case (Inl e)
      with w None l s1 show ?thesis by auto
    next
      case (Inr s2)
      note s2 = run_process_Inr [OF Inr]
      from s2 k s1 sh have i2: "cwd s2 = cwd s"
        "files s2 (cwd s, str_nat exp_id @ ''.in.txt'') \<noteq> None"
        "files s2 (cwd s, str_nat exp_id @ ''.sh'') \<noteq> None"
        by simp_all
      show ?thesis
      proof (cases "read_file (str_nat exp_id @ ''.out.txt'') s2")
        case (Inl e)
        with w None Inr l i2 show ?thesis by auto
      next
        case f: (Inr f)
        from read_file_Inr [OF f] i2
        have o2: "files s2 (cwd s, str_nat exp_id @ ''.out.txt'') \<noteq> None" by simp
        have rec: "files s3 key \<noteq> None"
          if "BigQUIC_loop lib exp_id params rest cs s2 = (s3, r)" "files s2 key \<noteq> None"
          for cs key
          using BigQUIC_loop_state [of lib exp_id params rest cs s2 key] k that by simp
        from w None Inr f l have
          "(s3 = s2 \<and> isl r) \<or> (\<exists>cs. BigQUIC_loop lib exp_id params rest cs s2 = (s3, r))"
          by (auto split: sum.splits)
        with i2 o2 rec show ?thesis by auto
      qed
    qed
  qed
  then show "files s3 (cwd s, str_nat exp_id @ ''.in.txt'') \<noteq> None"
    and "\<not> isl r \<Longrightarrow> files s3 (cwd s, str_nat exp_id @ ''.sh'') \<noteq> None \<and>
                       files s3 (cwd s, str_nat exp_id @ ''.out.txt'') \<noteq> None"
    by simp_all
qed

lemma QUIC_train_no_dir:
  "\<not> is_dir s (cwd s @ QUIC_dir) \<Longrightarrow>
     QUIC_train lib exp_id s td params = (s, params, Inl OSError)"
  by (simp add: QUIC_train_def chdir_def)

lemma QUIC_train_entered:
  assumes d: "is_dir s (cwd s @ QUIC_dir)"
    and P: "P = realpath s (cwd s @ QUIC_dir)"
    and t: "QUIC_train lib exp_id s td params = (s', ps', r)"
  shows "\<not> isl r \<Longrightarrow>
           files s' (P, str_nat exp_id @ ''.in.mat'') = None \<and>
           files s' (P, str_nat exp_id @ ''.out.mat'') = None \<and>
           files s' (P, str_nat exp_id @ ''.m'') = None \<and>
           cwd s' = take (length P - 3) P"
    and "isl r \<Longrightarrow> cwd s' = P"
    and "isl r \<Longrightarrow> keeps_files (run_octave lib) \<Longrightarrow> 
           files s' (P, str_nat exp_id @ ''.m'') \<noteq> None"
    and "QUIC_loop lib exp_id params td [] (write_file (str_nat exp_id @ ''.m'') (Text (QUIC_script exp_id)) (s\<lparr>cwd := P\<rparr>)) = (s3, Inl e) \<Longrightarrow> s' = s3 \<and> r = Inl e"
proof -
  let ?s2 = "write_file (str_nat exp_id @ ''.m'') (Text (QUIC_script exp_id)) (s\<lparr>cwd := P\<rparr>)"
  from d P have c: "chdir QUIC_dir s = Inr (s\<lparr>cwd := P\<rparr>)" by (simp add: chdir_def)
  obtain q lr where l: "QUIC_loop lib exp_id params td [] ?s2 = (q, lr)"
    by (cases "QUIC_loop lib exp_id params td [] ?s2")
  from QUIC_loop_state [of lib exp_id params td "[]" ?s2] l
  have q: "cwd q = P"
    "keeps_files (run_octave lib) \<Longrightarrow> files ?s2 k \<noteq> None \<Longrightarrow> files q k \<noteq> None" for k
    by (simp_all add: write_file_def)
  have all: "(\<not> isl r \<longrightarrow>
           files s' (P, str_nat exp_id @ ''.in.mat'') = None \<and>
           files s' (P, str_nat exp_id @ ''.out.mat'') = None \<and>
           files s' (P, str_nat exp_id @ ''.m'') = None \<and>
           cwd s' = take (length P - 3) P) \<and>
    (isl r \<longrightarrow> cwd s' = P) \<and>
    (isl r \<longrightarrow> keeps_files (run_octave lib) \<longrightarrow> 
           files s' (P, str_nat exp_id @ ''.m'') \<noteq> None) \<and>
    (\<forall>s3 e. (q, lr) = (s3, Inl e) \<longrightarrow> s' = s3 \<and> r = Inl e)"
  proof (cases lr)
    case (Inl e)
    with t c l have "s' = q" "r = Inl e" by (simp_all add: QUIC_train_def Let_def)
    with q Inl show ?thesis
      by (simp add: write_file_def)
  next
    case (Inr covs)
    from q(2) [of "(P, str_nat exp_id @ ''.m'')"]
    have m: "keeps_files (run_octave lib) \<Longrightarrow> files q (P, str_nat exp_id @ ''.m'') \<noteq> None"
      by (simp add: write_file_def)
    show ?thesis
    proof (cases "os_remove (str_nat exp_id @ ''.in.mat'') q")
      case r1: (Inl e)
      with t c l Inr have "s' = q" "r = Inl e" by (simp_all add: QUIC_train_def Let_def)
      with q Inr m show ?thesis by simp
    next
      case r1: (Inr s4)
      note s4 = os_remove_Inr [OF r1]
      show ?thesis
      proof (cases "os_remove (str_nat exp_id @ ''.out.mat'') s4")
        case r2: (Inl e)
        with t c l Inr r1 have "s' = s4" "r = Inl e"
          by (simp_all add: QUIC_train_def Let_def)
        with q Inr s4 m show ?thesis by (cases "(P, str_nat exp_id @ ''.m'') = (P, str_nat exp_id @ ''.in.mat'')") auto
      next
        case r2: (Inr s5)
        note s5 = os_remove_Inr [OF r2]
        show ?thesis
        proof (cases "os_remove (str_nat exp_id @ ''.m'') s5")
          case r3: (Inl e)
          with t c l Inr r1 r2 have "s' = s5" "r = Inl e"
            by (simp_all add: QUIC_train_def Let_def)
          with q Inr s4 s5 m show ?thesis using os_remove_Inl [OF r3] by auto
        next
          case r3: (Inr s6)
          note s6 = os_remove_Inr [OF r3]
          from t c l Inr r1 r2 r3 have "s' = chdir_up 3 s6" "\<not> isl r"
            by (auto simp: QUIC_train_def Let_def)
          moreover from s4 s5 s6 q have "cwd s6 = P"
            "files s6 (P, str_nat exp_id @ ''.in.mat'') = None"
            "files s6 (P, str_nat exp_id @ ''.out.mat'') = None"
            "files s6 (P, str_nat exp_id @ ''.m'') = None"
            by simp_all
          ultimately show ?thesis using Inr by (simp add: chdir_up_def)
        qed
      qed
    qed
  qed
  from all show "\<not> isl r \<Longrightarrow>
           files s' (P, str_nat exp_id @ ''.in.mat'') = None \<and>
           files s' (P, str_nat exp_id @ ''.out.mat'') = None \<and>
           files s' (P, str_nat exp_id @ ''.m'') = None \<and>
           cwd s' = take (length P - 3) P"
    and "isl r \<Longrightarrow> cwd s' = P"
    and "isl r \<Longrightarrow> keeps_files (run_octave lib) \<Longrightarrow> 
           files s' (P, str_nat exp_id @ ''.m'') \<noteq> None"
    by simp_all
  from all l show "QUIC_loop lib exp_id params td [] (write_file (str_nat exp_id @ ''.m'') (Text (QUIC_script exp_id)) (s\<lparr>cwd := P\<rparr>)) = (s3, Inl e)
      \<Longrightarrow> s' = s3 \<and> r = Inl e"
    by simp
qed

lemma BigQUIC_train_no_dir:
  "\<not> is_dir s (cwd s @ BigQUIC_dir) \<Longrightarrow>
     BigQUIC_train lib exp_id s td params = (s, params, Inl OSError)"
  by (simp add: BigQUIC_train_def chdir_def)

lemma BigQUIC_train_entered:
  assumes d: "is_dir s (cwd s @ BigQUIC_dir)"
    and P: "P = realpath s (cwd s @ BigQUIC_dir)"
    and t: "BigQUIC_train lib exp_id s td params = (s', ps', r)"
  shows "\<not> isl r \<Longrightarrow>
           files s' (P, str_nat exp_id @ ''.in.txt'') = None \<and>
           files s' (P, str_nat exp_id @ ''.out.txt'') = None \<and>
           files s' (P, str_nat exp_id @ ''.sh'') = None \<and>
           cwd s' = take (length P - 4) P"
    and "isl r \<Longrightarrow> cwd s' = P"
    and "isl r \<Longrightarrow> keeps_files (run_bash lib) \<Longrightarrow> td \<noteq> [] \<Longrightarrow>
           files s' (P, str_nat exp_id @ ''.in.txt'') \<noteq> None"
    and "BigQUIC_loop lib exp_id params td [] (s\<lparr>cwd := P\<rparr>) = (s3, Inl e)
           \<Longrightarrow> s' = s3 \<and> r = Inl e"
proof -
  let ?s2 = "s\<lparr>cwd := P\<rparr>"
  from d P have c: "chdir BigQUIC_dir s = Inr ?s2" by (simp add: chdir_def)
  obtain q lr where l: "BigQUIC_loop lib exp_id params td [] ?s2 = (q, lr)"
    by (cases "BigQUIC_loop lib exp_id params td [] ?s2")
  from BigQUIC_loop_state [of lib exp_id params td "[]" ?s2] l
  have q: "cwd q = P" by simp
  have f: "files q (P, str_nat exp_id @ ''.in.txt'') \<noteq> None \<and>
           (\<not> isl lr \<longrightarrow> files q (P, str_nat exp_id @ ''.sh'') \<noteq> None \<and>
                          files q (P, str_nat exp_id @ ''.out.txt'') \<noteq> None)"
    if k: "keeps_files (run_bash lib)" and n: "td \<noteq> []"
  proof -
    from n obtain X rest where "td = X # rest" by (cases td) simp_all
    with l have "BigQUIC_loop lib exp_id params (X # rest) [] ?s2 = (q, lr)" by simp
    from BigQUIC_loop_Cons_files [OF k this] show ?thesis by simp
  qed
  have all: "(\<not> isl r \<longrightarrow>
           files s' (P, str_nat exp_id @ ''.in.txt'') = None \<and>
           files s' (P, str_nat exp_id @ ''.out.txt'') = None \<and>
           files s' (P, str_nat exp_id @ ''.sh'') = None \<and>
           cwd s' = take (length P - 4) P) \<and>
    (isl r \<longrightarrow> cwd s' = P) \<and>
    (isl r \<longrightarrow> keeps_files (run_bash lib) \<longrightarrow> td \<noteq> [] \<longrightarrow>
           files s' (P, str_nat exp_id @ ''.in.txt'') \<noteq> None) \<and>
    (\<forall>s3 e. (q, lr) = (s3, Inl e) \<longrightarrow> s' = s3 \<and> r = Inl e)"
  proof (cases lr)
    case (Inl e)
    with t c l have "s' = q" "r = Inl e" by (simp_all add: BigQUIC_train_def)
    with q f Inl show ?thesis by simp
  next
    case (Inr covs)
    show ?thesis
    proof (cases "os_remove (str_nat exp_id @ ''.in.txt'') q")
      case r1: (Inl e)
      with t c l Inr have "s' = q" "r = Inl e" by (simp_all add: BigQUIC_train_def)
      with q f Inr show ?thesis by simp
    next
      case r1: (Inr s4)
      note s4 = os_remove_Inr [OF r1]
      show ?thesis
      proof (cases "os_remove (str_nat exp_id @ ''.out.txt'') s4")
        case r2: (Inl e)
        with t c l Inr r1 have s': "s' = s4" "r = Inl e"
          by (simp_all add: BigQUIC_train_def)
        from os_remove_Inl [OF r2] s4(1) q
        have "files s4 (P, str_nat exp_id @ ''.out.txt'') = None" by simp
        moreover from s4(4) [of "(P, str_nat exp_id @ ''.out.txt'')"] q
        have "files s4 (P, str_nat exp_id @ ''.out.txt'')
                = files q (P, str_nat exp_id @ ''.out.txt'')" by simp
        ultimately have "\<not> (keeps_files (run_bash lib) \<and> td \<noteq> [])"
          using f Inr by auto
        with s' q s4 Inr show ?thesis by auto
      next
        case r2: (Inr s5)
        note s5 = os_remove_Inr [OF r2]
        show ?thesis
        proof (cases "os_remove (str_nat exp_id @ ''.sh'') s5")
          case r3: (Inl e)
          with t c l Inr r1 r2 have s': "s' = s5" "r = Inl e"
            by (simp_all add: BigQUIC_train_def)
          from os_remove_Inl [OF r3] s4(1) s5(1) q
          have "files s5 (P, str_nat exp_id @ ''.sh'') = None" by simp
          moreover from s4(4) [of "(P, str_nat exp_id @ ''.sh'')"]
            s5(4) [of "(P, str_nat exp_id @ ''.sh'')"] s4(1) q
          have "files s5 (P, str_nat exp_id @ ''.sh'') = files q (P, str_nat exp_id @ ''.sh'')"
            by simp
          ultimately have "\<not> (keeps_files (run_bash lib) \<and> td \<noteq> [])"
            using f Inr by auto
          with s' q s4 s5 Inr show ?thesis by auto
        next
          case r3: (Inr s6)
          note s6 = os_remove_Inr [OF r3]
          from t c l Inr r1 r2 r3 have "s' = chdir_up 4 s6" "\<not> isl r"
            by (auto simp: BigQUIC_train_def)
          moreover from s4 s5 s6 q have "cwd s6 = P"
            "files s6 (P, str_nat exp_id @ ''.in.txt'') = None"
            "files s6 (P, str_nat exp_id @ ''.out.txt'') = None"
            "files s6 (P, str_nat exp_id @ ''.sh'') = None"
            by simp_all
          ultimately show ?thesis using Inr by (simp add: chdir_up_def)
        qed
      qed
    qed
  qed
  from all show "\<not> isl r \<Longrightarrow>
           files s' (P, str_nat exp_id @ ''.in.txt'') = None \<and>
           files s' (P, str_nat exp_id @ ''.out.txt'') = None \<and>
           files s' (P, str_nat exp_id @ ''.sh'') = None \<and>
           cwd s' = take (length P - 4) P"
    and "isl r \<Longrightarrow> cwd s' = P"
    and "isl r \<Longrightarrow> keeps_files (run_bash lib) \<Longrightarrow> td \<noteq> [] \<Longrightarrow>
           files s' (P, str_nat exp_id @ ''.in.txt'') \<noteq> None"
    by simp_all
  from all l show "BigQUIC_loop lib exp_id params td [] (s\<lparr>cwd := P\<rparr>) = (s3, Inl e)
      \<Longrightarrow> s' = s3 \<and> r = Inl e"
    by simp
qed

text \<open>
  C3, as claimed: the temporary files are deleted and the working directory is restored
  on every exit path, also when the parsing raises. The code on an output file
  without a header: \<^verbatim>\<open>BigQUIC._train\<close> raises \<^verbatim>\<open>AttributeError\<close>, the three
  files of the run are still there, and the working directory is the directory of the
  solver, not the one before the call; \<^verbatim>\<open>QUIC._train\<close> on an output file that
  \<^verbatim>\<open>loadmat\<close> rejects does the same. With no parameter \<^verbatim>\<open>lamb\<close>,
  \<^verbatim>\<open>BigQUIC._train\<close> raises \<^verbatim>\<open>KeyError\<close> and leaves the input file and an
  empty command file. And with the directory of QUIC a symbolic link to
  \<^verbatim>\<open>/opt/QUIC\<close>, \<^verbatim>\<open>QUIC._train\<close> returns with the working directory at the
  root, for \<^verbatim>\<open>../../..\<close> is followed from \<^verbatim>\<open>/opt/QUIC\<close>.
\<close>

theorem cleanup_on_exception_counterexample:
  "snd (snd (bq_run out_bad)) = Inl AttributeError \<and>
   cwd (fst (bq_run out_bad)) = [''repo'', ''experiments'', ''methods'', ''BigQUIC'', ''bigquic''] \<and>
   cwd (start_fs :: string list fs) = [''repo''] \<and>
   files (fst (bq_run out_bad)) (cwd (fst (bq_run out_bad)), ''7.in.txt'') = Some [''2 5'' @ nl] \<and>
   files (fst (bq_run out_bad)) (cwd (fst (bq_run out_bad)), ''7.out.txt'') = Some out_bad \<and>
   files (fst (bq_run out_bad)) (cwd (fst (bq_run out_bad)), ''7.sh'')
     = Some [''./bigquic-run -l 1 -t 1 -q 1 -e 1 7.in.txt 7.out.txt;'' @ nl] \<and>
   snd (snd (quic_run (Text []))) = Inl ValueError \<and>
   cwd (fst (quic_run (Text []))) = [''repo'', ''experiments'', ''methods'', ''QUIC''] \<and>
   files (fst (quic_run (Text []))) (cwd (fst (quic_run (Text []))), ''7.in.mat'') = Some (Mat 0) \<and>
   files (fst (quic_run (Text []))) (cwd (fst (quic_run (Text []))), ''7.out.mat'') = Some (Text []) \<and>
   files (fst (quic_run (Text []))) (cwd (fst (quic_run (Text []))), ''7.m'')
     = Some (Text (QUIC_script 7)) \<and>
   snd (snd bq_missing_run) = Inl (KeyError ''lamb'') \<and>
   cwd (fst bq_missing_run) = [''repo'', ''experiments'', ''methods'', ''BigQUIC'', ''bigquic''] \<and>
   files (fst bq_missing_run) (cwd (fst bq_missing_run), ''7.in.txt'') = Some [''2 5'' @ nl] \<and>
   files (fst bq_missing_run) (cwd (fst bq_missing_run), ''7.sh'') = Some [] \<and>
   snd quic_linked_run = (quic_params, Inr (Some [3], None)) \<and>
   cwd (linked_fs :: nat content fs) = [''repo''] \<and>
   cwd (fst quic_linked_run) = []"
  by code_simp

text \<open>
  C3, amended. For a call of \<^verbatim>\<open>QUIC._train\<close> and a call of
  \<^verbatim>\<open>BigQUIC._train\<close>, with \<open>P\<close> and \<open>Q\<close> the physical directories of the
  solvers. When the directory of the solver is not there, the call raises
  \<^verbatim>\<open>OSError\<close> and has changed nothing. Otherwise: a call that returns has deleted
  the three files of its run from the directory of the solver, and the working
  directory is 3 (QUIC) or 4 (BigQUIC) levels above that directory, which is the
  working directory before the call when the path to the solver goes through no
  symbolic link. A call that raises leaves the working directory in the directory
  of the solver, and, when the child process deletes no file, the script of QUIC and
  (with at least one segment) the input file of BigQUIC are still there. When it is
  the loop over the segments that raises, the state after the call is the state in
  which the loop raised: nothing is removed and the directory is not left.
\<close>

theorem cleanup_on_return:
  assumes q: "QUIC_train qlib exp_id s td ps = (s', d, r)"
    and P: "P = realpath s (cwd s @ QUIC_dir)"
    and b: "BigQUIC_train blib exp_id' t td' ps' = (t', d', r')"
    and Q: "Q = realpath t (cwd t @ BigQUIC_dir)"
  shows "(\<not> is_dir s (cwd s @ QUIC_dir) \<longrightarrow> s' = s \<and> r = Inl OSError) \<and>
    (is_dir s (cwd s @ QUIC_dir) \<longrightarrow>
       (\<not> isl r \<longrightarrow>
          files s' (P, str_nat exp_id @ ''.in.mat'') = None \<and>
          files s' (P, str_nat exp_id @ ''.out.mat'') = None \<and>
          files s' (P, str_nat exp_id @ ''.m'') = None \<and>
          cwd s' = take (length P - 3) P \<and>
          (P = cwd s @ QUIC_dir \<longrightarrow> cwd s' = cwd s)) \<and>
       (isl r \<longrightarrow>
          cwd s' = P \<and>
          (keeps_files (run_octave qlib) \<longrightarrow>
             files s' (P, str_nat exp_id @ ''.m'') \<noteq> None)) \<and>
       (\<forall>s3 e. QUIC_loop qlib exp_id ps td []
                  (write_file (str_nat exp_id @ ''.m'') (Text (QUIC_script exp_id))
                     (s\<lparr>cwd := P\<rparr>)) = (s3, Inl e) \<longrightarrow>
                s' = s3 \<and> r = Inl e)) \<and>
    (\<not> is_dir t (cwd t @ BigQUIC_dir) \<longrightarrow> t' = t \<and> r' = Inl OSError) \<and>
    (is_dir t (cwd t @ BigQUIC_dir) \<longrightarrow>
       (\<not> isl r' \<longrightarrow>
          files t' (Q, str_nat exp_id' @ ''.in.txt'') = None \<and>
          files t' (Q, str_nat exp_id' @ ''.out.txt'') = None \<and>
          files t' (Q, str_nat exp_id' @ ''.sh'') = None \<and>
          cwd t' = take (length Q - 4) Q \<and>
          (Q = cwd t @ BigQUIC_dir \<longrightarrow> cwd t' = cwd t)) \<and>
       (isl r' \<longrightarrow>
          cwd t' = Q \<and>
          (keeps_files (run_bash blib) \<and> td' \<noteq> [] \<longrightarrow>
             files t' (Q, str_nat exp_id' @ ''.in.txt'') \<noteq> None)) \<and>
       (\<forall>t3 e. BigQUIC_loop blib exp_id' ps' td' [] (t\<lparr>cwd := Q\<rparr>) = (t3, Inl e) \<longrightarrow>
                t' = t3 \<and> r' = Inl e))"
proof -
  have 1: "\<not> is_dir s (cwd s @ QUIC_dir) \<longrightarrow> s' = s \<and> r = Inl OSError"
    using q by (auto simp: QUIC_train_no_dir)
  have 2: "\<not> is_dir t (cwd t @ BigQUIC_dir) \<longrightarrow> t' = t \<and> r' = Inl OSError"
    using b by (auto simp: BigQUIC_train_no_dir)
  have 3: "(\<not> isl r \<longrightarrow>
          files s' (P, str_nat exp_id @ ''.in.mat'') = None \<and>
          files s' (P, str_nat exp_id @ ''.out.mat'') = None \<and>
          files s' (P, str_nat exp_id @ ''.m'') = None \<and>
          cwd s' = take (length P - 3) P \<and>
          (P = cwd s @ QUIC_dir \<longrightarrow> cwd s' = cwd s)) \<and>
       (isl r \<longrightarrow>
          cwd s' = P \<and>
          (keeps_files (run_octave qlib) \<longrightarrow>
             files s' (P, str_nat exp_id @ ''.m'') \<noteq> None)) \<and>
       (\<forall>s3 e. QUIC_loop qlib exp_id ps td []
                  (write_file (str_nat exp_id @ ''.m'') (Text (QUIC_script exp_id))
                     (s\<lparr>cwd := P\<rparr>)) = (s3, Inl e) \<longrightarrow>
                s' = s3 \<and> r = Inl e)"
    if e: "is_dir s (cwd s @ QUIC_dir)"
  proof -
    note n = QUIC_train_entered [OF e P q]
    have "take (length (cwd s @ QUIC_dir) - 3) (cwd s @ QUIC_dir) = cwd s"
      by (simp add: QUIC_dir_def)
    with n(1) have "\<not> isl r \<longrightarrow> P = cwd s @ QUIC_dir \<longrightarrow> cwd s' = cwd s" by simp
    with n show ?thesis by blast
  qed
  have 4: "(\<not> isl r' \<longrightarrow>
          files t' (Q, str_nat exp_id' @ ''.in.txt'') = None \<and>
          files t' (Q, str_nat exp_id' @ ''.out.txt'') = None \<and>
          files t' (Q, str_nat exp_id' @ ''.sh'') = None \<and>
          cwd t' = take (length Q - 4) Q \<and>
          (Q = cwd t @ BigQUIC_dir \<longrightarrow> cwd t' = cwd t)) \<and>
       (isl r' \<longrightarrow>
          cwd t' = Q \<and>
          (keeps_files (run_bash blib) \<and> td' \<noteq> [] \<longrightarrow>
             files t' (Q, str_nat exp_id' @ ''.in.txt'') \<noteq> None)) \<and>
       (\<forall>t3 e. BigQUIC_loop blib exp_id' ps' td' [] (t\<lparr>cwd := Q\<rparr>) = (t3, Inl e) \<longrightarrow>
                t' = t3 \<and> r' = Inl e)"
    if e: "is_dir t (cwd t @ BigQUIC_dir)"
  proof -
    note n = BigQUIC_train_entered [OF e Q b]
    have "take (length (cwd t @ BigQUIC_dir) - 4) (cwd t @ BigQUIC_dir) = cwd t"
      by (simp add: BigQUIC_dir_def)
    with n(1) have "\<not> isl r' \<longrightarrow> Q = cwd t @ BigQUIC_dir \<longrightarrow> cwd t' = cwd t" by simp
    with n show ?thesis by blast
  qed
  from 1 2 3 4 show ?thesis by blast
qed

theorem cleanup_on_return_witness:
  "snd (quic_run (Mat 3)) = (quic_params, Inr (Some [3], None)) \<and>
   cwd (fst (quic_run (Mat 3))) = cwd (start_fs :: nat content fs) \<and>
   files (fst (quic_run (Mat 3))) (cwd (start_fs :: nat content fs) @ QUIC_dir, ''7.in.mat'') = None \<and>
   files (fst (quic_run (Mat 3))) (cwd (start_fs :: nat content fs) @ QUIC_dir, ''7.out.mat'') = None \<and>
   files (fst (quic_run (Mat 3))) (cwd (start_fs :: nat content fs) @ QUIC_dir, ''7.m'') = None \<and>
   snd (bq_run out_ok) = (bq_params, Inr (Some [[[Fin 4, Fin (- 1)], [Fin 0, Fin 5]]], None)) \<and>
   cwd (fst (bq_run out_ok)) = cwd (start_fs :: string list fs) \<and>
   files (fst (bq_run out_ok)) (cwd (start_fs :: string list fs) @ BigQUIC_dir, ''7.in.txt'') = None \<and>
   files (fst (bq_run out_ok)) (cwd (start_fs :: string list fs) @ BigQUIC_dir, ''7.out.txt'') = None \<and>
   files (fst (bq_run out_ok)) (cwd (start_fs :: string list fs) @ BigQUIC_dir, ''7.sh'') = None \<and>
   snd (snd (quic_run (Text []))) = Inl ValueError \<and>
   cwd (fst (quic_run (Text []))) = cwd (start_fs :: nat content fs) @ QUIC_dir \<and>
   files (fst (quic_run (Text []))) (cwd (start_fs :: nat content fs) @ QUIC_dir, ''7.m'') \<noteq> None \<and>
   snd (snd (bq_run out_bad)) = Inl AttributeError \<and>
   cwd (fst (bq_run out_bad)) = cwd (start_fs :: string list fs) @ BigQUIC_dir \<and>
   files (fst (bq_run out_bad)) (cwd (start_fs :: string list fs) @ BigQUIC_dir, ''7.in.txt'')
     \<noteq> None \<and>
   fst (quic_run (Text []))
     = fst (QUIC_loop (quic_lib (Text [])) 7 quic_params [()] []
              (write_file ''7.m'' (Text (QUIC_script 7))
                 (start_fs\<lparr>cwd := cwd (start_fs :: nat content fs) @ QUIC_dir\<rparr>))) \<and>
   fst (bq_run out_bad)
     = fst (BigQUIC_loop (bq_lib out_bad) 7 bq_params [(5, 2)] []
              (start_fs\<lparr>cwd := cwd (start_fs :: string list fs) @ BigQUIC_dir\<rparr>)) \<and>
   fst quic_no_dir_run = no_dir_fs \<and> snd (snd quic_no_dir_run) = Inl OSError \<and>
   fst bq_no_dir_run = no_dir_fs \<and> snd (snd bq_no_dir_run) = Inl OSError"
proof -
  let ?ql = "QUIC_loop (quic_lib (Text [])) 7 quic_params [()] []
              (write_file ''7.m'' (Text (QUIC_script 7))
                 (start_fs\<lparr>cwd := cwd (start_fs :: nat content fs) @ QUIC_dir\<rparr>))"
  let ?bl = "BigQUIC_loop (bq_lib out_bad) 7 bq_params [(5, 2)] []
              (start_fs\<lparr>cwd := cwd (start_fs :: string list fs) @ BigQUIC_dir\<rparr>)"
  have "snd ?ql = Inl ValueError" by code_simp
  then have lq: "?ql = (fst ?ql, Inl ValueError)" by (metis prod.collapse)
  have "snd ?bl = Inl AttributeError" by code_simp
  then have lb: "?bl = (fst ?bl, Inl AttributeError)" by (metis prod.collapse)
  have n: "str_nat 7 = ''7''" by code_simp
  have dq: "is_dir (start_fs :: nat content fs) (cwd (start_fs :: nat content fs) @ QUIC_dir)"
    "realpath (start_fs :: nat content fs) (cwd (start_fs :: nat content fs) @ QUIC_dir)
       = cwd (start_fs :: nat content fs) @ QUIC_dir"
    by (simp_all add: start_fs_def)
  have db: "is_dir (start_fs :: string list fs) (cwd (start_fs :: string list fs) @ BigQUIC_dir)"
    "realpath (start_fs :: string list fs) (cwd (start_fs :: string list fs) @ BigQUIC_dir)
       = cwd (start_fs :: string list fs) @ BigQUIC_dir"
    by (simp_all add: start_fs_def)
  have nq: "\<not> is_dir (no_dir_fs :: nat content fs) (cwd (no_dir_fs :: nat content fs) @ QUIC_dir)"
    by (simp add: no_dir_fs_def)
  have nb: "\<not> is_dir (no_dir_fs :: string list fs)
               (cwd (no_dir_fs :: string list fs) @ BigQUIC_dir)"
    by (simp add: no_dir_fs_def)
  have kq: "keeps_files (run_octave (quic_lib out))" for out
    by (simp add: keeps_files_def quic_lib_def)
  have kb: "keeps_files (run_bash (bq_lib out))" for out
    by (simp add: keeps_files_def bq_lib_def)
  have q1: "snd (quic_run (Mat 3)) = (quic_params, Inr (Some [3], None))"
    by code_simp
  have b1: "snd (bq_run out_ok)
             = (bq_params, Inr (Some [[[Fin 4, Fin (- 1)], [Fin 0, Fin 5]]], None))"
    by code_simp
  have q2: "snd (snd (quic_run (Text []))) = Inl ValueError" by code_simp
  have b2: "snd (snd (bq_run out_bad)) = Inl AttributeError" by code_simp
  have iq1: "\<not> isl (snd (snd (quic_run (Mat 3))))" using q1 by simp
  have ib1: "\<not> isl (snd (snd (bq_run out_ok)))" using b1 by simp
  have iq2: "isl (snd (snd (quic_run (Text []))))" using q2 by simp
  have ib2: "isl (snd (snd (bq_run out_bad)))" using b2 by simp
  have pq1: "QUIC_train (quic_lib (Mat 3)) 7 start_fs [()] quic_params
      = (fst (quic_run (Mat 3)), fst (snd (quic_run (Mat 3))), snd (snd (quic_run (Mat 3))))"
    by (simp add: quic_run_def)
  have pb1: "BigQUIC_train (bq_lib out_ok) 7 start_fs [(5, 2)] bq_params
      = (fst (bq_run out_ok), fst (snd (bq_run out_ok)), snd (snd (bq_run out_ok)))"
    by (simp add: bq_run_def)
  have pq2: "QUIC_train (quic_lib (Text [])) 7 start_fs [()] quic_params
      = (fst (quic_run (Text [])), fst (snd (quic_run (Text []))),
         snd (snd (quic_run (Text []))))"
    by (simp add: quic_run_def)
  have pb2: "BigQUIC_train (bq_lib out_bad) 7 start_fs [(5, 2)] bq_params
      = (fst (bq_run out_bad), fst (snd (bq_run out_bad)), snd (snd (bq_run out_bad)))"
    by (simp add: bq_run_def)
  have pq3: "QUIC_train (quic_lib (Mat 3)) 7 no_dir_fs [()] quic_params
      = (fst quic_no_dir_run, fst (snd quic_no_dir_run), snd (snd quic_no_dir_run))"
    by (simp add: quic_no_dir_run_def)
  have pb3: "BigQUIC_train (bq_lib out_ok) 7 no_dir_fs [(5, 2)] bq_params
      = (fst bq_no_dir_run, fst (snd bq_no_dir_run), snd (snd bq_no_dir_run))"
    by (simp add: bq_no_dir_run_def)
  have ret: "cwd (fst (quic_run (Mat 3))) = cwd (start_fs :: nat content fs) \<and>
   files (fst (quic_run (Mat 3))) (cwd (start_fs :: nat content fs) @ QUIC_dir, ''7.in.mat'') = None \<and>
   files (fst (quic_run (Mat 3))) (cwd (start_fs :: nat content fs) @ QUIC_dir, ''7.out.mat'') = None \<and>
   files (fst (quic_run (Mat 3))) (cwd (start_fs :: nat content fs) @ QUIC_dir, ''7.m'') = None \<and>
   cwd (fst (bq_run out_ok)) = cwd (start_fs :: string list fs) \<and>
   files (fst (bq_run out_ok)) (cwd (start_fs :: string list fs) @ BigQUIC_dir, ''7.in.txt'') = None \<and>
   files (fst (bq_run out_ok)) (cwd (start_fs :: string list fs) @ BigQUIC_dir, ''7.out.txt'') = None \<and>
   files (fst (bq_run out_ok)) (cwd (start_fs :: string list fs) @ BigQUIC_dir, ''7.sh'') = None"
    using cleanup_on_return [OF pq1 refl pb1 refl] dq db iq1 ib1 n
    by (simp del: QUIC_loop.simps BigQUIC_loop.simps) (elim conjE, simp)
  have exc: "cwd (fst (quic_run (Text []))) = cwd (start_fs :: nat content fs) @ QUIC_dir \<and>
   files (fst (quic_run (Text []))) (cwd (start_fs :: nat content fs) @ QUIC_dir, ''7.m'') \<noteq> None \<and>
   cwd (fst (bq_run out_bad)) = cwd (start_fs :: string list fs) @ BigQUIC_dir \<and>
   files (fst (bq_run out_bad)) (cwd (start_fs :: string list fs) @ BigQUIC_dir, ''7.in.txt'')
     \<noteq> None"
    using cleanup_on_return [OF pq2 refl pb2 refl] dq db iq2 ib2 n kq kb
    by (auto simp del: QUIC_loop.simps BigQUIC_loop.simps)
  have lp: "fst (quic_run (Text [])) = fst ?ql \<and> fst (bq_run out_bad) = fst ?bl"
    using cleanup_on_return [OF pq2 refl pb2 refl] dq db n lq lb
    by (simp del: QUIC_loop.simps BigQUIC_loop.simps)
  have nod: "fst quic_no_dir_run = no_dir_fs \<and> snd (snd quic_no_dir_run) = Inl OSError \<and>
   fst bq_no_dir_run = no_dir_fs \<and> snd (snd bq_no_dir_run) = Inl OSError"
    using cleanup_on_return [OF pq3 refl pb3 refl] nq nb
    by (auto simp del: QUIC_loop.simps BigQUIC_loop.simps)
  from q1 b1 q2 b2 ret exc lp nod show ?thesis by simp
qed

end
